theory Spec2Isabelle
  imports Main "HOL-Library.Sublist"
begin

section \<open>Python strings and exceptions\<close>

text \<open>
  A Python \<open>str\<close> is modelled as a \<open>string\<close>. Isabelle characters carry eight bits, so the
  model covers text whose code points lie below 256; on that range the only decimal digits
  (what \<open>\d\<close> matches) are \<open>0\<close> to \<open>9\<close>.

  An exception object is its class name together with the text \<open>str(exc)\<close> gives. \<open>Exn\<close>
  is an instance of \<open>Exception\<close>, which \<open>except Exception\<close> catches; \<open>BaseExn\<close> is an
  instance of \<open>BaseException\<close> alone (\<open>SystemExit\<close>, \<open>KeyboardInterrupt\<close>), which it does
  not catch. Raising is the left summand of a sum type, returning is the right one.
\<close>

datatype exn =
    Exn (exn_type: string) (exn_msg: string)
  | BaseExn (exn_type: string) (exn_msg: string)

text \<open>\<open>isinstance(exc, Exception)\<close>.\<close>

fun is_Exception :: "exn \<Rightarrow> bool" where
  "is_Exception (Exn _ _) = True"
| "is_Exception (BaseExn _ _) = False"

abbreviation RuntimeError :: "string \<Rightarrow> exn" where
  "RuntimeError m \<equiv> Exn ''RuntimeError'' m"

definition is_digit :: "char \<Rightarrow> bool" where
  "is_digit c = (c \<in> set ''0123456789'')"

text \<open>\<open>s.startswith(p)\<close> is \<^const>\<open>prefix\<close>; \<open>s.lstrip("v")\<close> drops every leading \<open>v\<close>.\<close>

definition lstrip_v :: "string \<Rightarrow> string" where
  "lstrip_v s = dropWhile (\<lambda>c. c = CHR ''v'') s"

text \<open>\<open>str(n)\<close> for a natural number \<open>n\<close>: its decimal digits.\<close>

definition digit_char :: "nat \<Rightarrow> char" where
  "digit_char d = ''0123456789'' ! (d mod 10)"

function str_nat :: "nat \<Rightarrow> string" where
  "str_nat n = (if n < 10 then [digit_char n] else str_nat (n div 10) @ [digit_char n])"
  by pat_completeness auto
termination
  by (relation "measure id") auto

declare str_nat.simps [simp del]

text \<open>\<open>" ".join(xs)\<close>.\<close>

fun join_space :: "string list \<Rightarrow> string" where
  "join_space [] = []"
| "join_space [x] = x"
| "join_space (x # y # ys) = x @ '' '' @ join_space (y # ys)"

text \<open>\<open>p in s\<close> on strings: \<open>p\<close> occurs in \<open>s\<close> as a contiguous piece.\<close>

fun py_in :: "string \<Rightarrow> string \<Rightarrow> bool" where
  "py_in p [] = (p = [])"
| "py_in p (c # cs) = (prefix p (c # cs) \<or> py_in p cs)"

text \<open>
  \<open>s.lower()\<close> below code point 256: \<open>A\<close> to \<open>Z\<close> and the upper-case letters from
  \<open>0xC0\<close> to \<open>0xDE\<close> (the sign \<open>0xD7\<close> is no letter) move up by 32.
\<close>

definition lower_char :: "char \<Rightarrow> char" where
  "lower_char c =
     (let n = (of_char c :: nat) in
      if (65 \<le> n \<and> n \<le> 90) \<or> (192 \<le> n \<and> n \<le> 222 \<and> n \<noteq> 215)
      then char_of (n + 32) else c)"

definition py_lower :: "string \<Rightarrow> string" where
  "py_lower s = map lower_char s"

text \<open>
  \<open>s.strip()\<close> removes white space at both ends, \<open>s.splitlines()\<close> cuts at line boundaries
  (\<open>\r\n\<close> counts as one) and keeps no empty piece after a final boundary. Below code point
  256 the white space characters are \<open>0x09\<close> to \<open>0x0D\<close>, \<open>0x1C\<close> to \<open>0x20\<close>, \<open>0x85\<close> and
  \<open>0xA0\<close>; the line boundaries are \<open>0x0A\<close> to \<open>0x0D\<close>, \<open>0x1C\<close> to \<open>0x1E\<close> and \<open>0x85\<close>.
\<close>

definition is_space :: "char \<Rightarrow> bool" where
  "is_space c = (c \<in> set [CHR 0x09, CHR 0x0A, CHR 0x0B, CHR 0x0C, CHR 0x0D, CHR 0x1C,
                            CHR 0x1D, CHR 0x1E, CHR 0x1F, CHR 0x20, CHR 0x85, CHR 0xA0])"

definition is_linebreak :: "char \<Rightarrow> bool" where
  "is_linebreak c = (c \<in> set [CHR 0x0A, CHR 0x0B, CHR 0x0C, CHR 0x0D, CHR 0x1C, CHR 0x1D,
                                CHR 0x1E, CHR 0x85])"

definition py_strip :: "string \<Rightarrow> string" where
  "py_strip s = rev (dropWhile is_space (rev (dropWhile is_space s)))"

fun splitlines :: "string \<Rightarrow> string list" where
  "splitlines [] = []"
| "splitlines [c] = (if is_linebreak c then [[]] else [[c]])"
| "splitlines (c # d # cs) =
     (if c = CHR 0x0D \<and> d = CHR 0x0A then [] # splitlines cs
      else if is_linebreak c then [] # splitlines (d # cs)
      else (case splitlines (d # cs) of
              [] \<Rightarrow> [[c]]
            | l # ls \<Rightarrow> (c # l) # ls))"

text \<open>\<open>s.replace(chr(10), ' ')\<close>.\<close>

definition replace_newlines :: "string \<Rightarrow> string" where
  "replace_newlines s = map (\<lambda>c. if c = CHR 0x0A then CHR '' '' else c) s"

section \<open>Effects\<close>

text \<open>
  What a run does to the world is kept as the list of its events, in order: a line printed,
  a module import attempted, a call of \<open>urlopen\<close> (with the method \<open>GET\<close> or \<open>HEAD\<close>), a
  look-up on the execution path, a subprocess started. What the world answers is read from
  an environment record.
\<close>

datatype event =
    Print string
  | Import string
  | Get string
  | Head string
  | Which string
  | Run "string list"

text \<open>The attributes the scripts read from the \<open>torch\<close> module and from \<open>flash_attn\<close>.\<close>

record torch_module =
  tm_version :: string
  tm_cuda :: "string option"
  tm_cuda_available :: bool
  tm_cxx11abi :: bool

record flash_module =
  fm_version :: "string option"

section \<open>The installer: \<open>scripts/install_prebuilt_flash_attn.py\<close>\<close>

definition GITHUB_REPO :: string where
  "GITHUB_REPO = ''Dao-AILab/flash-attention''"

definition DEFAULT_RELEASE_TAG :: string where
  "DEFAULT_RELEASE_TAG = ''v2.8.3''"

record RuntimeInfo =
  torch_version :: string
  torch_major_minor :: string
  torch_cuda :: string
  python_tag :: string
  cxx11abi :: string
  platform_tag :: string

text \<open>
  \<open>_parse_torch_major_minor\<close>: \<open>re.match(r"^(\d+)\.(\d+)", torch_version)\<close>. Both groups are
  greedy, and nothing follows the second one, so group 1 is the longest run of digits at the
  start (a shorter one would have to be followed by a dot, and is followed by a digit) and
  group 2 the longest run of digits after the dot.
\<close>

definition parse_torch_major_minor :: "string \<Rightarrow> exn + string" where
  "parse_torch_major_minor tv =
     (let g1 = takeWhile is_digit tv; r1 = dropWhile is_digit tv in
      if g1 = [] then Inl (RuntimeError (''Unable to parse torch version: '' @ tv))
      else case r1 of
        [] \<Rightarrow> Inl (RuntimeError (''Unable to parse torch version: '' @ tv))
      | c # r2 \<Rightarrow>
          if c \<noteq> CHR ''.'' \<or> takeWhile is_digit r2 = []
          then Inl (RuntimeError (''Unable to parse torch version: '' @ tv))
          else Inr (g1 @ ''.'' @ takeWhile is_digit r2))"

text \<open>\<open>_wheel_url\<close>: the file name carries the fixed family tag \<open>cu12\<close>.\<close>

definition wheel_filename :: "string \<Rightarrow> RuntimeInfo \<Rightarrow> string" where
  "wheel_filename release_tag runtime =
     ''flash_attn-'' @ lstrip_v release_tag @ ''%2Bcu12torch'' @ torch_major_minor runtime
       @ ''cxx11abi'' @ cxx11abi runtime @ ''-'' @ python_tag runtime @ ''-''
       @ python_tag runtime @ ''-'' @ platform_tag runtime @ ''.whl''"

definition wheel_url :: "string \<Rightarrow> RuntimeInfo \<Rightarrow> string" where
  "wheel_url release_tag runtime =
     ''https://github.com/'' @ GITHUB_REPO @ ''/releases/download/'' @ release_tag @ ''/''
       @ wheel_filename release_tag runtime"

section \<open>The installer's environment and pipeline\<close>

definition GITHUB_API_RELEASE_LATEST :: string where
  "GITHUB_API_RELEASE_LATEST = ''https://api.github.com/repos/'' @ GITHUB_REPO @ ''/releases/latest''"

datatype installer_choice = Auto | Uv | Pip

record args =
  arg_release_tag :: "string option"
  arg_print_url :: bool
  arg_installer :: installer_choice

text \<open>
  A value read out of the decoded JSON document: \<open>None\<close>, a string, or anything else, of
  which only the type's name, the truth value and the printed form matter.
\<close>

datatype pyval = PyNone | PyStr string | PyOther string bool string

fun truthy :: "pyval \<Rightarrow> bool" where
  "truthy PyNone = False"
| "truthy (PyStr s) = (s \<noteq> [])"
| "truthy (PyOther _ b _) = b"

fun py_str :: "pyval \<Rightarrow> string" where
  "py_str PyNone = ''None''"
| "py_str (PyStr s) = s"
| "py_str (PyOther _ _ s) = s"

fun py_type_name :: "pyval \<Rightarrow> string" where
  "py_type_name PyNone = ''NoneType''"
| "py_type_name (PyStr _) = ''str''"
| "py_type_name (PyOther ty _ _) = ty"

text \<open>The \<open>AttributeError\<close> for a missing attribute \<open>a\<close> on an object of the type named \<open>ty\<close>.\<close>

definition no_attribute :: "string \<Rightarrow> string \<Rightarrow> exn" where
  "no_attribute ty a =
     Exn ''AttributeError''
       ([CHR 0x27] @ ty @ [CHR 0x27] @ '' object has no attribute '' @ [CHR 0x27] @ a
          @ [CHR 0x27])"

text \<open>
  The document \<open>json.loads\<close> returns is a dictionary, given by what \<open>.get("tag_name")\<close>
  finds in it (\<open>None\<close> when the key is absent), or a value of another type, named by its
  type, on which \<open>.get\<close> raises \<open>AttributeError\<close>.
\<close>

datatype payload = Dict pyval | NotADict string

text \<open>The answer to the \<open>HEAD\<close> request: success, an \<open>HTTPError\<close> with its code, or another exception.\<close>

datatype head_outcome = HeadOk | HeadHTTPError nat string | HeadRaised exn

record install_env =
  ie_import_torch :: "exn + torch_module"
  ie_sys_platform :: string
  ie_machine :: string
  ie_version_major :: nat
  ie_version_minor :: nat
  ie_index :: "exn + payload"
  ie_head :: "string \<Rightarrow> head_outcome"
  ie_which_uv :: bool
  ie_executable :: string
  ie_run :: "string list \<Rightarrow> exn + int"

text \<open>\<open>_platform_tag\<close>.\<close>

definition platform_tag_fn :: "install_env \<Rightarrow> exn + string" where
  "platform_tag_fn env =
     (if \<not> prefix ''linux'' (ie_sys_platform env)
      then Inl (RuntimeError ''Prebuilt flash-attn wheel install is supported on Linux only.'')
      else let machine = py_lower (ie_machine env) in
        if machine \<in> set [''x86_64'', ''amd64''] then Inr ''linux_x86_64''
        else if machine \<in> set [''aarch64'', ''arm64''] then Inr ''linux_aarch64''
        else Inl (RuntimeError (''Unsupported machine architecture: '' @ machine)))"

text \<open>
  \<open>_get_latest_release_tag\<close>. Lines 87 and 88 (request, read, decode, parse) raise or give
  the document; the result is whatever truthy value sits under \<open>tag_name\<close>, a string or not.
\<close>

definition get_latest_release_tag :: "install_env \<Rightarrow> exn + pyval" where
  "get_latest_release_tag env =
     (case ie_index env of
        Inl exc \<Rightarrow> Inl exc
      | Inr (NotADict ty) \<Rightarrow>
          Inl (no_attribute ty ''get'')
      | Inr (Dict tag_name) \<Rightarrow>
          if \<not> truthy tag_name
          then Inl (RuntimeError ''GitHub API response did not include tag_name.'')
          else Inr tag_name)"

text \<open>
  \<open>_gather_runtime\<close>. The import is under \<open>except Exception\<close>, which re-raises as
  \<open>RuntimeError\<close>; \<open>torch.version.cuda or ""\<close> turns \<open>None\<close> into the empty string.
\<close>

definition gather_runtime :: "install_env \<Rightarrow> exn + RuntimeInfo" where
  "gather_runtime env =
     (case ie_import_torch env of
        Inl exc \<Rightarrow>
          if is_Exception exc
          then Inl (RuntimeError
                 ''torch must be installed in this environment before installing flash-attn.'')
          else Inl exc
      | Inr torch \<Rightarrow>
         (case parse_torch_major_minor (tm_version torch) of
            Inl e \<Rightarrow> Inl e
          | Inr mm \<Rightarrow>
             (let cuda = (case tm_cuda torch of None \<Rightarrow> [] | Some c \<Rightarrow> c) in
              if cuda = []
              then Inl (RuntimeError
                     ''CUDA runtime not detected in torch (torch.version.cuda is empty).'')
              else if \<not> prefix ''12.'' cuda
              then Inl (RuntimeError (''Unsupported torch CUDA runtime '' @ cuda
                     @ ''. This script currently targets flash-attn cu12 wheels.''))
              else
               (let ptag = ''cp'' @ str_nat (ie_version_major env)
                             @ str_nat (ie_version_minor env);
                    abi = (if tm_cxx11abi torch then ''TRUE'' else ''FALSE'') in
                case platform_tag_fn env of
                  Inl e \<Rightarrow> Inl e
                | Inr plat \<Rightarrow>
                    Inr \<lparr>torch_version = tm_version torch, torch_major_minor = mm,
                         torch_cuda = cuda, python_tag = ptag, cxx11abi = abi,
                         platform_tag = plat\<rparr>))))"

text \<open>\<open>_wheel_exists\<close>: only an \<open>HTTPError\<close> is caught, and only code 404 is answered.\<close>

definition wheel_exists :: "install_env \<Rightarrow> string \<Rightarrow> exn + bool" where
  "wheel_exists env url =
     (case ie_head env url of
        HeadOk \<Rightarrow> Inr True
      | HeadHTTPError code msg \<Rightarrow> if code = 404 then Inr False else Inl (Exn ''HTTPError'' msg)
      | HeadRaised exc \<Rightarrow> Inl exc)"

text \<open>\<open>_install_cmd\<close>, with the path look-up it makes for \<open>auto\<close>.\<close>

definition install_cmd :: "install_env \<Rightarrow> installer_choice \<Rightarrow> string \<Rightarrow> event list \<times> string list" where
  "install_cmd env installer url =
     (let looked = (if installer = Auto then [Which ''uv''] else []);
          installer' = (if installer = Auto then (if ie_which_uv env then Uv else Pip)
                        else installer) in
      if installer' = Uv
      then (looked, [''uv'', ''pip'', ''install'', ''--force-reinstall'', ''--no-deps'', url])
      else (looked, [ie_executable env, ''-m'', ''pip'', ''install'', ''--force-reinstall'',
                     ''--no-deps'', url]))"

text \<open>
  Lines 161 to 171 of \<open>main\<close>: the release tag, with the events of resolving it. The
  look-up is under \<open>except Exception\<close>.
\<close>

definition resolve_release_tag :: "args \<Rightarrow> install_env \<Rightarrow> event list \<times> (exn + pyval)" where
  "resolve_release_tag a env =
     (case arg_release_tag a of
        Some t \<Rightarrow> ([], Inr (PyStr t))
      | None \<Rightarrow>
         (case get_latest_release_tag env of
            Inr tag \<Rightarrow>
              ([Get GITHUB_API_RELEASE_LATEST,
                Print (''Using latest release tag: '' @ py_str tag)], Inr tag)
          | Inl exc \<Rightarrow>
              if is_Exception exc
              then ([Get GITHUB_API_RELEASE_LATEST,
                     Print (''Could not resolve latest release tag ('' @ exn_type exc @ '': ''
                            @ exn_msg exc @ ''). Falling back to '' @ DEFAULT_RELEASE_TAG
                            @ ''.'')],
                    Inr (PyStr DEFAULT_RELEASE_TAG))
              else ([Get GITHUB_API_RELEASE_LATEST], Inl exc)))"

text \<open>Lines 173 to 191 of \<open>main\<close>: everything from the construction of the address on.\<close>

definition install_from :: "args \<Rightarrow> install_env \<Rightarrow> RuntimeInfo \<Rightarrow> string \<Rightarrow> event list \<times> (exn + int)" where
  "install_from a env runtime release_tag =
     (let url = wheel_url release_tag runtime;
          shown = [Print (''torch='' @ torch_version runtime @ '' cuda='' @ torch_cuda runtime
                          @ '' python='' @ python_tag runtime),
                   Print (''Resolved wheel: '' @ url),
                   Head url] in
      case wheel_exists env url of
        Inl exc \<Rightarrow> (shown, Inl exc)
      | Inr False \<Rightarrow>
          (shown @ [Print ''No matching prebuilt wheel found for this runtime.'',
                    Print (''Try a different --release-tag, or align python/torch to a runtime ''
                           @ ''with published flash-attn wheels.'')],
           Inr 2)
      | Inr True \<Rightarrow>
          if arg_print_url a then (shown, Inr 0)
          else
           (let (looked, cmd) = install_cmd env (arg_installer a) url;
                evs = shown @ looked @ [Print (''Installing via: '' @ join_space cmd), Run cmd] in
            case ie_run env cmd of
              Inl exc \<Rightarrow> (evs, Inl exc)
            | Inr returncode \<Rightarrow> (evs, Inr returncode)))"

text \<open>
  \<open>main\<close>, after the arguments are parsed. A resolved tag that is no string has no
  \<open>lstrip\<close>: line 128 raises \<open>AttributeError\<close>.
\<close>

definition install_main :: "args \<Rightarrow> install_env \<Rightarrow> event list \<times> (exn + int)" where
  "install_main a env =
     (case gather_runtime env of
        Inl exc \<Rightarrow> ([Import ''torch''], Inl exc)
      | Inr runtime \<Rightarrow>
         (let (evs, resolved) = resolve_release_tag a env in
          case resolved of
            Inl exc \<Rightarrow> (Import ''torch'' # evs, Inl exc)
          | Inr (PyStr release_tag) \<Rightarrow>
              (let (evs', res) = install_from a env runtime release_tag
               in (Import ''torch'' # evs @ evs', res))
          | Inr tag \<Rightarrow>
              (Import ''torch'' # evs, Inl (no_attribute (py_type_name tag) ''lstrip''))))"

section \<open>The inspector: \<open>scripts/diagnose_flash_attn.py\<close>\<close>

record diag_env =
  de_sys_version :: string
  de_executable :: string
  de_sys_platform :: string
  de_cuda_home :: "string option"
  de_check_output :: "string list \<Rightarrow> exn + string"
  de_import_torch :: "exn + torch_module"
  de_import_flash_attn :: "exn + flash_module"
  de_import_ext :: "exn + unit"

abbreviation IndexError :: exn where
  "IndexError \<equiv> Exn ''IndexError'' ''list index out of range''"

definition nvcc_cmd :: "string list" where
  "nvcc_cmd = [''nvcc'', ''--version'']"

definition smi_cmd :: "string list" where
  "smi_cmd = [''nvidia-smi'', ''--query-gpu=driver_version'', ''--format=csv,noheader'']"

text \<open>
  \<open>_try_import\<close> turns an import that raises an instance of \<open>Exception\<close> into a returned
  triple; any other exception passes through it. The model keeps the sum the environment
  gives and tells the two apart where \<open>main\<close> looks at the triple. \<open>_cmd_output\<close> does the
  same for a probe command, as text.
\<close>

definition cmd_output :: "diag_env \<Rightarrow> string list \<Rightarrow> exn + string" where
  "cmd_output env cmd =
     (case de_check_output env cmd of
        Inr output \<Rightarrow> Inr (py_strip output)
      | Inl exc \<Rightarrow>
          if is_Exception exc
          then Inr (''<unavailable: '' @ exn_type exc @ '': '' @ exn_msg exc @ ''>'')
          else Inl exc)"

text \<open>
  \<open>_print_runtime\<close>. Lines 34 and 35 index the list of lines (\<open>[-1]\<close>, \<open>[0]\<close>) before they
  print; on an empty list the indexing raises \<open>IndexError\<close>.
\<close>

definition print_runtime :: "diag_env \<Rightarrow> event list \<times> (exn + unit)" where
  "print_runtime env =
     (let evs1 = [Print (''python: '' @ replace_newlines (de_sys_version env)),
                  Print (''executable: '' @ de_executable env),
                  Print (''platform: '' @ de_sys_platform env),
                  Print (''CUDA_HOME: '' @ (case de_cuda_home env of
                                              None \<Rightarrow> ''<unset>'' | Some v \<Rightarrow> v)),
                  Run nvcc_cmd] in
      case cmd_output env nvcc_cmd of
        Inl exc \<Rightarrow> (evs1, Inl exc)
      | Inr nvcc \<Rightarrow>
         (case splitlines nvcc of
            [] \<Rightarrow> (evs1, Inl IndexError)
          | l # ls \<Rightarrow>
             (let evs2 = evs1 @ [Print (''nvcc: '' @ last (l # ls)), Run smi_cmd] in
              case cmd_output env smi_cmd of
                Inl exc \<Rightarrow> (evs2, Inl exc)
              | Inr smi \<Rightarrow>
                 (case splitlines smi of
                    [] \<Rightarrow> (evs2, Inl IndexError)
                  | k # ks \<Rightarrow> (evs2 @ [Print (''nvidia-smi: '' @ k)], Inr ())))))"

definition str_bool :: "bool \<Rightarrow> string" where
  "str_bool b = (if b then ''True'' else ''False'')"

definition abi_diagnosis :: "torch_module \<Rightarrow> event list" where
  "abi_diagnosis torch =
     [Print (''Diagnosis: ABI mismatch. flash-attn was built against a different ''
             @ ''PyTorch/CUDA runtime than the current one (torch='' @ tm_version torch
             @ '', cuda='' @ (case tm_cuda torch of None \<Rightarrow> ''None'' | Some c \<Rightarrow> c) @ '').''),
      Print ''Fix: reinstall flash-attn in this exact env after torch is finalized.'',
      Print ''Command: uv run python scripts/install_prebuilt_flash_attn.py'']"

text \<open>
  Lines 41 to 73 of \<open>main\<close>: the three imports. An import that raises outside \<open>Exception\<close>
  ends \<open>main\<close> with that exception.
\<close>

definition diagnose_imports :: "diag_env \<Rightarrow> event list \<times> (exn + int)" where
  "diagnose_imports env =
     (case de_import_torch env of
        Inl torch_exc \<Rightarrow>
          if is_Exception torch_exc
          then ([Import ''torch'',
                 Print (''torch import failed: '' @ exn_type torch_exc @ '': ''
                        @ exn_msg torch_exc)],
                Inr 1)
          else ([Import ''torch''], Inl torch_exc)
      | Inr torch \<Rightarrow>
         (let evs1 = [Import ''torch'',
                      Print (''torch: '' @ tm_version torch),
                      Print (''torch.version.cuda: ''
                             @ (case tm_cuda torch of None \<Rightarrow> ''None'' | Some c \<Rightarrow> c)),
                      Print (''torch.cuda.is_available: '' @ str_bool (tm_cuda_available torch)),
                      Import ''flash_attn''] in
          case de_import_flash_attn env of
            Inl flash_exc \<Rightarrow>
              if is_Exception flash_exc
              then (evs1 @ [Print (''flash_attn import failed: '' @ exn_type flash_exc @ '': ''
                                   @ exn_msg flash_exc),
                            Print ''Diagnosis: flash-attn is missing or not loadable in this environment.''],
                    Inr 2)
              else (evs1, Inl flash_exc)
          | Inr flash_attn \<Rightarrow>
             (let evs2 = evs1 @ [Print (''flash_attn: '' @ (case fm_version flash_attn of
                                                            None \<Rightarrow> ''<unknown>'' | Some v \<Rightarrow> v)),
                                 Import ''flash_attn_2_cuda''] in
              case de_import_ext env of
                Inl ext_exc \<Rightarrow>
                  if is_Exception ext_exc
                  then (evs2 @ [Print (''flash_attn_2_cuda import failed: '' @ exn_type ext_exc
                                       @ '': '' @ exn_msg ext_exc)]
                             @ (if py_in ''undefined symbol'' (exn_msg ext_exc)
                                then abi_diagnosis torch else []),
                        Inr 3)
                  else (evs2, Inl ext_exc)
              | Inr _ \<Rightarrow>
                  (evs2 @ [Print ''flash_attn_2_cuda import succeeded.'',
                           Print ''flash-attn looks ABI-compatible with this runtime.''],
                   Inr 0))))"

text \<open>\<open>main\<close> of the inspector.\<close>

definition diagnose_main :: "diag_env \<Rightarrow> event list \<times> (exn + int)" where
  "diagnose_main env =
     (case print_runtime env of
        (evs, Inl exc) \<Rightarrow> (evs, Inl exc)
      | (evs, Inr _) \<Rightarrow>
          (let (evs', res) = diagnose_imports env in (evs @ evs', res)))"

section \<open>The shape of a gathered fingerprint\<close>

text \<open>\<open>digits "." digits\<close>, and \<open>cp\<close> followed by digits.\<close>

definition is_major_minor :: "string \<Rightarrow> bool" where
  "is_major_minor s =
     (takeWhile is_digit s \<noteq> [] \<and>
      (case dropWhile is_digit s of
         [] \<Rightarrow> False
       | c # b \<Rightarrow> c = CHR ''.'' \<and> b \<noteq> [] \<and> list_all is_digit b))"

definition is_python_tag :: "string \<Rightarrow> bool" where
  "is_python_tag s = (prefix ''cp'' s \<and> drop 2 s \<noteq> [] \<and> list_all is_digit (drop 2 s))"

definition wf_runtime :: "RuntimeInfo \<Rightarrow> bool" where
  "wf_runtime r =
     (is_major_minor (torch_major_minor r) \<and> prefix (torch_major_minor r) (torch_version r)
      \<and> prefix ''12.'' (torch_cuda r)
      \<and> is_python_tag (python_tag r)
      \<and> cxx11abi r \<in> set [''TRUE'', ''FALSE'']
      \<and> platform_tag r \<in> set [''linux_x86_64'', ''linux_aarch64''])"

section \<open>Example environments\<close>

text \<open>
  A Linux machine with Python 3.10 and a CUDA 12.1 build of torch 2.4.0, on which the
  release index answers \<open>v2.8.3\<close>, the wheel exists, \<open>uv\<close> is on the path and the
  installer ends with status 0.
\<close>

definition example_torch :: torch_module where
  "example_torch =
     \<lparr>tm_version = ''2.4.0+cu121'', tm_cuda = Some ''12.1'', tm_cuda_available = True,
      tm_cxx11abi = False\<rparr>"

definition example_env :: install_env where
  "example_env =
     \<lparr>ie_import_torch = Inr example_torch, ie_sys_platform = ''linux'',
      ie_machine = ''x86_64'', ie_version_major = 3, ie_version_minor = 10,
      ie_index = Inr (Dict (PyStr ''v2.8.3'')), ie_head = (\<lambda>url. HeadOk),
      ie_which_uv = True, ie_executable = ''/usr/bin/python'',
      ie_run = (\<lambda>cmd. Inr 0)\<rparr>"

definition example_runtime :: RuntimeInfo where
  "example_runtime =
     \<lparr>torch_version = ''2.4.0+cu121'', torch_major_minor = ''2.4'', torch_cuda = ''12.1'',
      python_tag = ''cp310'', cxx11abi = ''FALSE'', platform_tag = ''linux_x86_64''\<rparr>"

definition example_args :: args where
  "example_args = \<lparr>arg_release_tag = None, arg_print_url = False, arg_installer = Auto\<rparr>"

text \<open>
  For the inspector: the same machine, with both probe commands answering, \<open>flash_attn\<close>
  importable and its compiled extension failing to load on an unresolved symbol. In the
  second environment \<open>nvcc --version\<close> ends with status 0 and prints nothing.
\<close>

definition example_diag_env :: diag_env where
  "example_diag_env =
     \<lparr>de_sys_version = ''3.10.12 (main)'', de_executable = ''/usr/bin/python'',
      de_sys_platform = ''linux'', de_cuda_home = None,
      de_check_output = (\<lambda>cmd. if cmd = nvcc_cmd then Inr (''Cuda 12.1'' @ [CHR 0x0A])
                              else Inr (''550.54'' @ [CHR 0x0A])),
      de_import_torch = Inr example_torch,
      de_import_flash_attn = Inr \<lparr>fm_version = Some ''2.8.3''\<rparr>,
      de_import_ext = Inl (Exn ''ImportError'' (''lib.so: '' @ ''undefined symbol'' @ '': _Z1f''))\<rparr>"

definition blank_nvcc_env :: diag_env where
  "blank_nvcc_env =
     example_diag_env\<lparr>de_check_output :=
       (\<lambda>cmd. if cmd = nvcc_cmd then Inr [] else Inr (''550.54'' @ [CHR 0x0A]))\<rparr>"

section \<open>Properties of the installer's pure functions\<close>

lemma lstrip_v_example: "lstrip_v ''v2.8.3'' = ''2.8.3''"
  by (simp add: lstrip_v_def)

text \<open>
  C1 (as the code has it). For release tag \<open>v2.8.3\<close> and the fingerprint with
  \<open>torch_major_minor = 2.4\<close>, \<open>torch_cuda = 12.1\<close>, \<open>python_tag = cp310\<close>, \<open>cxx11abi = TRUE\<close>
  and \<open>platform_tag = linux_x86_64\<close>, whatever its \<open>torch_version\<close>, \<open>_wheel_url\<close> returns
  the address whose file name has the toolkit part \<open>cu12\<close>: the family tag is a constant of
  the template and the fingerprint's \<open>torch_cuda\<close> is not read.
\<close>

theorem wheel_url_v283_cu12:
  "wheel_url ''v2.8.3''
     \<lparr>torch_version = tv, torch_major_minor = ''2.4'', torch_cuda = ''12.1'',
      python_tag = ''cp310'', cxx11abi = ''TRUE'', platform_tag = ''linux_x86_64''\<rparr>
   = ''https://github.com/Dao-AILab/flash-attention/releases/download/v2.8.3/flash_attn-2.8.3%2Bcu12torch2.4cxx11abiTRUE-cp310-cp310-linux_x86_64.whl''"
  by (simp add: wheel_url_def wheel_filename_def GITHUB_REPO_def lstrip_v_def)

text \<open>
  C1 (as the specification words it) fails: at that input the result is not the address with
  the toolkit part \<open>cu12.1\<close>.
\<close>

theorem wheel_url_v283_not_cu12_1:
  "wheel_url ''v2.8.3''
     \<lparr>torch_version = ''2.4.0'', torch_major_minor = ''2.4'', torch_cuda = ''12.1'',
      python_tag = ''cp310'', cxx11abi = ''TRUE'', platform_tag = ''linux_x86_64''\<rparr>
   \<noteq> ''https://github.com/Dao-AILab/flash-attention/releases/download/v2.8.3/flash_attn-2.8.3%2Bcu12.1torch2.4cxx11abiTRUE-cp310-cp310-linux_x86_64.whl''"
  by (simp add: wheel_url_def wheel_filename_def GITHUB_REPO_def lstrip_v_def)

subsection \<open>The version parser\<close>

lemma dot_not_digit: "\<not> is_digit (CHR ''.'')"
  by (simp add: is_digit_def)

lemma takeWhile_digits_app:
  "list_all is_digit X \<Longrightarrow> takeWhile is_digit (X @ ys) = X @ takeWhile is_digit ys"
  by (simp add: list_all_iff)

lemma dropWhile_digits_app:
  "list_all is_digit X \<Longrightarrow> dropWhile is_digit (X @ ys) = dropWhile is_digit ys"
  by (simp add: list_all_iff)

text \<open>The second group runs on into the rest as far as digits go.\<close>

lemma parse_ok_general:
  assumes "X \<noteq> []" "Y \<noteq> []" "list_all is_digit X" "list_all is_digit Y"
  shows "parse_torch_major_minor (X @ ''.'' @ Y @ rest)
           = Inr (X @ ''.'' @ Y @ takeWhile is_digit rest)"
  using assms
  by (simp add: parse_torch_major_minor_def Let_def takeWhile_digits_app dropWhile_digits_app
        dot_not_digit)

lemma parse_Inr_decomp:
  assumes "parse_torch_major_minor tv = Inr r"
  shows "\<exists>X Y rest. X \<noteq> [] \<and> Y \<noteq> [] \<and> list_all is_digit X \<and> list_all is_digit Y
            \<and> tv = X @ ''.'' @ Y @ rest \<and> r = X @ ''.'' @ Y"
proof -
  let ?g1 = "takeWhile is_digit tv" and ?r1 = "dropWhile is_digit tv"
  from assms have g1: "?g1 \<noteq> []"
    by (auto simp: parse_torch_major_minor_def Let_def)
  from assms g1 obtain r2 where r1: "?r1 = CHR ''.'' # r2"
    and g2: "takeWhile is_digit r2 \<noteq> []"
    and r: "r = ?g1 @ ''.'' @ takeWhile is_digit r2"
    by (auto simp: parse_torch_major_minor_def Let_def split: list.splits if_splits)
  have "tv = ?g1 @ ?r1" by simp
  also have "\<dots> = ?g1 @ ''.'' @ takeWhile is_digit r2 @ dropWhile is_digit r2"
    by (simp add: r1)
  finally have tv: "tv = ?g1 @ ''.'' @ takeWhile is_digit r2 @ dropWhile is_digit r2" .
  have d1: "list_all is_digit ?g1" and d2: "list_all is_digit (takeWhile is_digit r2)"
    by (auto simp: list_all_iff dest: set_takeWhileD)
  from g1 g2 d1 d2 tv r show ?thesis by blast
qed

lemma parse_result_cases:
  "parse_torch_major_minor tv = Inl (RuntimeError (''Unable to parse torch version: '' @ tv))
   \<or> (\<exists>r. parse_torch_major_minor tv = Inr r)"
  by (auto simp: parse_torch_major_minor_def Let_def split: list.splits)

text \<open>
  C4. A version string that begins with digits, a dot and digits, the second number ending
  where the string ends or a character that is no digit follows (\<open>X.Y\<close>, \<open>X.Y.Z\<close>,
  \<open>X.Y+local\<close>), is parsed to \<open>X.Y\<close>. A string that does not begin with non-empty digits, a
  dot and non-empty digits raises \<open>RuntimeError\<close> with the parse message.
\<close>

theorem parse_torch_major_minor_spec:
  "(X \<noteq> [] \<and> Y \<noteq> [] \<and> list_all is_digit X \<and> list_all is_digit Y
      \<and> (rest = [] \<or> \<not> is_digit (hd rest))
     \<longrightarrow> parse_torch_major_minor (X @ ''.'' @ Y @ rest) = Inr (X @ ''.'' @ Y))
   \<and> ((\<nexists>A B more. A \<noteq> [] \<and> B \<noteq> [] \<and> list_all is_digit A \<and> list_all is_digit B
            \<and> tv = A @ ''.'' @ B @ more)
     \<longrightarrow> parse_torch_major_minor tv
           = Inl (RuntimeError (''Unable to parse torch version: '' @ tv)))"
proof (intro conjI impI)
  assume h: "X \<noteq> [] \<and> Y \<noteq> [] \<and> list_all is_digit X \<and> list_all is_digit Y
      \<and> (rest = [] \<or> \<not> is_digit (hd rest))"
  then have "takeWhile is_digit rest = []"
    by (cases rest) auto
  with h parse_ok_general [of X Y rest] show
    "parse_torch_major_minor (X @ ''.'' @ Y @ rest) = Inr (X @ ''.'' @ Y)"
    by simp
next
  assume n: "\<nexists>A B more. A \<noteq> [] \<and> B \<noteq> [] \<and> list_all is_digit A \<and> list_all is_digit B
            \<and> tv = A @ ''.'' @ B @ more"
  from parse_result_cases [of tv] show
    "parse_torch_major_minor tv = Inl (RuntimeError (''Unable to parse torch version: '' @ tv))"
  proof
    assume "\<exists>r. parse_torch_major_minor tv = Inr r"
    then obtain r where "parse_torch_major_minor tv = Inr r" ..
    from parse_Inr_decomp [OF this] n show ?thesis by blast
  qed simp
qed

theorem parse_torch_major_minor_spec_witness:
  "parse_torch_major_minor ''2.4.1+cu121'' = Inr ''2.4''
   \<and> parse_torch_major_minor ''v2.4'' = Inl (RuntimeError ''Unable to parse torch version: v2.4'')"
proof -
  have a: "parse_torch_major_minor (''2'' @ ''.'' @ ''4'' @ ''.1+cu121'') = Inr (''2'' @ ''.'' @ ''4'')"
    using parse_torch_major_minor_spec [of "''2''" "''4''" "''.1+cu121''" "''v2.4''"]
    by (simp add: is_digit_def)
  have "\<nexists>A B more. A \<noteq> [] \<and> B \<noteq> [] \<and> list_all is_digit A \<and> list_all is_digit B
            \<and> ''v2.4'' = A @ ''.'' @ B @ more"
  proof
    assume "\<exists>A B more. A \<noteq> [] \<and> B \<noteq> [] \<and> list_all is_digit A \<and> list_all is_digit B
            \<and> ''v2.4'' = A @ ''.'' @ B @ more"
    then obtain A B more where "A \<noteq> []" "list_all is_digit A" "''v2.4'' = A @ ''.'' @ B @ more"
      by blast
    then show False by (cases A) (auto simp: is_digit_def)
  qed
  with parse_torch_major_minor_spec [of "''2''" "''4''" "''.1+cu121''" "''v2.4''"]
  have b: "parse_torch_major_minor ''v2.4'' = Inl (RuntimeError (''Unable to parse torch version: '' @ ''v2.4''))"
    by blast
  from a b show ?thesis by simp
qed

subsection \<open>Which fingerprints share an address\<close>

lemma digit_char_is_digit: "is_digit (digit_char d)"
proof -
  have "d mod 10 < length ''0123456789''" by simp
  then have "''0123456789'' ! (d mod 10) \<in> set ''0123456789''" by (rule nth_mem)
  then show ?thesis by (simp only: is_digit_def digit_char_def)
qed

lemma str_nat_digits: "list_all is_digit (str_nat n)"
proof (induction n rule: str_nat.induct)
  case (1 n)
  show ?case
  proof (cases "n < 10")
    case True
    then show ?thesis by (subst str_nat.simps) (simp add: digit_char_is_digit)
  next
    case False
    with 1 show ?thesis by (subst str_nat.simps) (simp add: digit_char_is_digit)
  qed
qed

lemma str_nat_nonempty: "str_nat n \<noteq> []"
  by (subst str_nat.simps) simp

lemma split_unique:
  assumes "\<forall>x\<in>set a. p x" "\<forall>x\<in>set a'. p x" "\<not> p c" "\<not> p c'"
    and "a @ c # b = a' @ c' # b'"
  shows "a = a' \<and> c # b = c' # b'"
proof -
  have "takeWhile p (a @ c # b) = a" "takeWhile p (a' @ c' # b') = a'"
    using assms(1-4) by (simp_all add: takeWhile_append2)
  with assms(5) have "a = a'" by simp
  with assms(5) show ?thesis by simp
qed

lemma is_major_minor_chars:
  assumes "is_major_minor s"
  shows "\<forall>x\<in>set s. is_digit x \<or> x = CHR ''.''"
proof -
  from assms obtain b where d: "dropWhile is_digit s = CHR ''.'' # b" and b: "list_all is_digit b"
    by (auto simp: is_major_minor_def split: list.splits)
  have "s = takeWhile is_digit s @ CHR ''.'' # b"
    using takeWhile_dropWhile_id [of is_digit s] d by simp
  then have "set s = set (takeWhile is_digit s) \<union> insert (CHR ''.'') (set b)"
    by (metis set_append list.simps(15))
  with b show ?thesis
    by (auto simp: list_all_iff dest: set_takeWhileD)
qed

lemma is_python_tag_no_hyphen:
  assumes "is_python_tag s"
  shows "\<forall>x\<in>set s. x \<noteq> CHR ''-''"
proof -
  from assms obtain t where s: "s = ''cp'' @ t"
    by (auto simp: is_python_tag_def prefix_def)
  with assms have t: "list_all is_digit t"
    by (simp add: is_python_tag_def)
  have nd: "\<not> is_digit (CHR ''-'')"
    by (simp add: is_digit_def)
  show ?thesis
  proof
    fix x
    assume "x \<in> set s"
    with s have "x = CHR ''c'' \<or> x = CHR ''p'' \<or> x \<in> set t" by simp
    with t nd show "x \<noteq> CHR ''-''" by (auto simp: list_all_iff)
  qed
qed

lemma abi_no_hyphen:
  assumes "a \<in> set [''TRUE'', ''FALSE'']"
  shows "\<forall>x\<in>set a. x \<noteq> CHR ''-''"
proof -
  from assms have "a = ''TRUE'' \<or> a = ''FALSE''" by simp
  then show ?thesis
  proof
    assume "a = ''TRUE''" then show ?thesis by simp
  next
    assume "a = ''FALSE''" then show ?thesis by simp
  qed
qed

lemma wheel_url_fields:
  assumes "wf_runtime r" "wf_runtime r'" "wheel_url tag r = wheel_url tag r'"
  shows "torch_major_minor r = torch_major_minor r' \<and> cxx11abi r = cxx11abi r'
         \<and> python_tag r = python_tag r' \<and> platform_tag r = platform_tag r'"
proof -
  let ?dd = "\<lambda>x. is_digit x \<or> x = CHR ''.''" and ?nh = "\<lambda>x. x \<noteq> CHR ''-''"
  from assms(1,2) have mm: "\<forall>x\<in>set (torch_major_minor r). ?dd x"
      "\<forall>x\<in>set (torch_major_minor r'). ?dd x"
    using is_major_minor_chars [of "torch_major_minor r"]
      is_major_minor_chars [of "torch_major_minor r'"]
    by (simp_all add: wf_runtime_def)
  from assms(1,2) have abi: "\<forall>x\<in>set (cxx11abi r). ?nh x" "\<forall>x\<in>set (cxx11abi r'). ?nh x"
    using abi_no_hyphen [of "cxx11abi r"] abi_no_hyphen [of "cxx11abi r'"]
    by (simp_all add: wf_runtime_def)
  from assms(1,2) have py: "\<forall>x\<in>set (python_tag r). ?nh x" "\<forall>x\<in>set (python_tag r'). ?nh x"
    using is_python_tag_no_hyphen [of "python_tag r"] is_python_tag_no_hyphen [of "python_tag r'"]
    by (simp_all add: wf_runtime_def)
  have c: "\<not> ?dd (CHR ''c'')" by (simp add: is_digit_def)
  from assms(3) have e0:
    "torch_major_minor r @ CHR ''c'' # (''xx11abi'' @ cxx11abi r @ CHR ''-'' # (python_tag r
        @ CHR ''-'' # (python_tag r @ ''-'' @ platform_tag r @ ''.whl'')))
     = torch_major_minor r' @ CHR ''c'' # (''xx11abi'' @ cxx11abi r' @ CHR ''-'' # (python_tag r'
        @ CHR ''-'' # (python_tag r' @ ''-'' @ platform_tag r' @ ''.whl'')))"
    by (simp add: wheel_url_def wheel_filename_def)
  from split_unique [OF mm c c e0] have m: "torch_major_minor r = torch_major_minor r'"
    and e1: "cxx11abi r @ CHR ''-'' # (python_tag r
        @ CHR ''-'' # (python_tag r @ ''-'' @ platform_tag r @ ''.whl''))
     = cxx11abi r' @ CHR ''-'' # (python_tag r'
        @ CHR ''-'' # (python_tag r' @ ''-'' @ platform_tag r' @ ''.whl''))"
    by simp_all
  have h: "\<not> ?nh (CHR ''-'')" by simp
  from split_unique [OF abi h h e1] have a: "cxx11abi r = cxx11abi r'"
    and e2: "python_tag r @ CHR ''-'' # (python_tag r @ ''-'' @ platform_tag r @ ''.whl'')
     = python_tag r' @ CHR ''-'' # (python_tag r' @ ''-'' @ platform_tag r' @ ''.whl'')"
    by simp_all
  note s3 = split_unique [OF py h h e2]
  from s3 have p: "python_tag r = python_tag r'" by (rule conjunct1)
  from s3 p have "platform_tag r = platform_tag r'" by simp
  with m a p show ?thesis by simp
qed

lemma wheel_url_cong:
  assumes "torch_major_minor r = torch_major_minor r'" "cxx11abi r = cxx11abi r'"
    "python_tag r = python_tag r'" "platform_tag r = platform_tag r'"
  shows "wheel_url tag r = wheel_url tag r'"
  using assms by (simp add: wheel_url_def wheel_filename_def)

text \<open>
  C2 (as the code has it). For every release tag and every two fingerprints of the shape
  that gathering produces, the two addresses are equal exactly when the fingerprints agree
  on \<open>torch_major_minor\<close>, \<open>python_tag\<close>, \<open>cxx11abi\<close> and \<open>platform_tag\<close>: a
  difference in one of these four fields gives a different address, and \<open>torch_version\<close>
  and \<open>torch_cuda\<close> are not part of the address.
\<close>

theorem wheel_url_injective_on_embedded_fields:
  assumes "wf_runtime r" and "wf_runtime r'"
  shows "(wheel_url tag r = wheel_url tag r') =
         (torch_major_minor r = torch_major_minor r' \<and> python_tag r = python_tag r'
          \<and> cxx11abi r = cxx11abi r' \<and> platform_tag r = platform_tag r')"
  using wheel_url_fields [OF assms] wheel_url_cong [of r r' tag] by blast

theorem wheel_url_injective_on_embedded_fields_witness:
  "wf_runtime \<lparr>torch_version = ''2.4.0'', torch_major_minor = ''2.4'', torch_cuda = ''12.1'',
      python_tag = ''cp310'', cxx11abi = ''TRUE'', platform_tag = ''linux_x86_64''\<rparr>
   \<and> wf_runtime \<lparr>torch_version = ''2.4.0'', torch_major_minor = ''2.4'', torch_cuda = ''12.1'',
      python_tag = ''cp311'', cxx11abi = ''TRUE'', platform_tag = ''linux_x86_64''\<rparr>
   \<and> wheel_url ''v2.8.3''
        \<lparr>torch_version = ''2.4.0'', torch_major_minor = ''2.4'', torch_cuda = ''12.1'',
         python_tag = ''cp310'', cxx11abi = ''TRUE'', platform_tag = ''linux_x86_64''\<rparr>
     \<noteq> wheel_url ''v2.8.3''
        \<lparr>torch_version = ''2.4.0'', torch_major_minor = ''2.4'', torch_cuda = ''12.1'',
         python_tag = ''cp311'', cxx11abi = ''TRUE'', platform_tag = ''linux_x86_64''\<rparr>"
proof -
  let ?r = "\<lparr>torch_version = ''2.4.0'', torch_major_minor = ''2.4'', torch_cuda = ''12.1'',
      python_tag = ''cp310'', cxx11abi = ''TRUE'', platform_tag = ''linux_x86_64''\<rparr>"
  let ?r' = "\<lparr>torch_version = ''2.4.0'', torch_major_minor = ''2.4'', torch_cuda = ''12.1'',
      python_tag = ''cp311'', cxx11abi = ''TRUE'', platform_tag = ''linux_x86_64''\<rparr>"
  have w: "wf_runtime ?r" and w': "wf_runtime ?r'"
    by (simp_all add: wf_runtime_def is_major_minor_def is_python_tag_def is_digit_def)
  from wheel_url_injective_on_embedded_fields [OF w w', of "''v2.8.3''"]
  have "wheel_url ''v2.8.3'' ?r \<noteq> wheel_url ''v2.8.3'' ?r'" by simp
  with w w' show ?thesis by simp
qed

text \<open>
  C2 (as the specification words it) fails: two fingerprints that differ in \<open>torch_cuda\<close>
  only get the same address.
\<close>

theorem wheel_url_alias_on_torch_cuda:
  "\<lparr>torch_version = ''2.4.0'', torch_major_minor = ''2.4'', torch_cuda = ''12.1'',
      python_tag = ''cp310'', cxx11abi = ''TRUE'', platform_tag = ''linux_x86_64''\<rparr>
     \<noteq> \<lparr>torch_version = ''2.4.0'', torch_major_minor = ''2.4'', torch_cuda = ''12.4'',
      python_tag = ''cp310'', cxx11abi = ''TRUE'', platform_tag = ''linux_x86_64''\<rparr>
   \<and> wheel_url ''v2.8.3''
        \<lparr>torch_version = ''2.4.0'', torch_major_minor = ''2.4'', torch_cuda = ''12.1'',
         python_tag = ''cp310'', cxx11abi = ''TRUE'', platform_tag = ''linux_x86_64''\<rparr>
     = wheel_url ''v2.8.3''
        \<lparr>torch_version = ''2.4.0'', torch_major_minor = ''2.4'', torch_cuda = ''12.4'',
         python_tag = ''cp310'', cxx11abi = ''TRUE'', platform_tag = ''linux_x86_64''\<rparr>"
  by (simp add: wheel_url_def wheel_filename_def)

text \<open>
  Without the shape the four fields can run into each other: the text between \<open>torch\<close> and
  the first hyphen is cut differently by these two records.
\<close>

lemma wheel_url_alias_unshaped:
  "wheel_url tag \<lparr>torch_version = v, torch_major_minor = ''2.4cxx11abiX'', torch_cuda = c,
      python_tag = p, cxx11abi = ''Y'', platform_tag = q\<rparr>
   = wheel_url tag \<lparr>torch_version = v, torch_major_minor = ''2.4'', torch_cuda = c,
      python_tag = p, cxx11abi = ''Xcxx11abiY'', platform_tag = q\<rparr>"
  by (simp add: wheel_url_def wheel_filename_def)

subsection \<open>Gathering the fingerprint\<close>

lemma str_nat_3: "str_nat 3 = ''3''"
  by (simp add: str_nat.simps digit_char_def)

lemma str_nat_10: "str_nat 10 = ''10''"
  by (simp add: str_nat.simps digit_char_def)

lemma py_lower_x86: "py_lower ''x86_64'' = ''x86_64''"
  by (simp add: py_lower_def lower_char_def)

lemma py_lower_upper: "py_lower ''AArch64'' = ''aarch64''"
  by code_simp

lemma parse_example: "parse_torch_major_minor ''2.4.0+cu121'' = Inr ''2.4''"
  by (simp add: parse_torch_major_minor_def is_digit_def)

lemma platform_example: "platform_tag_fn example_env = Inr ''linux_x86_64''"
  by (simp add: platform_tag_fn_def example_env_def py_lower_x86)

lemma gather_example: "gather_runtime example_env = Inr example_runtime"
  using platform_example
  by (simp add: gather_runtime_def example_env_def example_torch_def example_runtime_def
        parse_example str_nat_3 str_nat_10)




lemma parse_Inr_shape:
  assumes "parse_torch_major_minor tv = Inr mm"
  shows "is_major_minor mm \<and> prefix mm tv"
proof -
  from parse_Inr_decomp [OF assms] obtain X Y rest where
    X: "X \<noteq> []" "list_all is_digit X" and Y: "Y \<noteq> []" "list_all is_digit Y"
    and tv: "tv = X @ ''.'' @ Y @ rest" and mm: "mm = X @ ''.'' @ Y"
    by blast
  from X have "takeWhile is_digit (X @ CHR ''.'' # Y) = X"
    "dropWhile is_digit (X @ CHR ''.'' # Y) = CHR ''.'' # Y"
    by (simp_all add: takeWhile_digits_app dropWhile_digits_app dot_not_digit)
  with X Y mm have "is_major_minor mm"
    by (simp add: is_major_minor_def)
  moreover from tv mm have "prefix mm tv"
    by (simp add: prefix_def)
  ultimately show ?thesis ..
qed

lemma platform_tag_fn_values:
  "platform_tag_fn env = Inr p \<Longrightarrow> p = ''linux_x86_64'' \<or> p = ''linux_aarch64''"
  by (simp add: platform_tag_fn_def Let_def split: if_splits)

lemma gather_runtime_InrD:
  assumes "gather_runtime env = Inr r"
  obtains torch mm cuda plat where
    "ie_import_torch env = Inr torch"
    "parse_torch_major_minor (tm_version torch) = Inr mm"
    "tm_cuda torch = Some cuda" "cuda \<noteq> []" "prefix ''12.'' cuda"
    "platform_tag_fn env = Inr plat"
    "r = \<lparr>torch_version = tm_version torch, torch_major_minor = mm, torch_cuda = cuda,
          python_tag = ''cp'' @ str_nat (ie_version_major env) @ str_nat (ie_version_minor env),
          cxx11abi = (if tm_cxx11abi torch then ''TRUE'' else ''FALSE''),
          platform_tag = plat\<rparr>"
proof -
  from assms obtain torch where t: "ie_import_torch env = Inr torch"
    by (cases "ie_import_torch env") (simp_all add: gather_runtime_def split: if_splits)
  from assms t obtain mm where m: "parse_torch_major_minor (tm_version torch) = Inr mm"
    by (cases "parse_torch_major_minor (tm_version torch)") (simp_all add: gather_runtime_def)
  from assms t m obtain cuda where c: "tm_cuda torch = Some cuda"
    by (cases "tm_cuda torch") (simp_all add: gather_runtime_def)
  from assms t m c have c1: "cuda \<noteq> []"
    by (cases "cuda = []") (simp_all add: gather_runtime_def)
  from assms t m c c1 have c2: "prefix ''12.'' cuda"
    by (cases "prefix ''12.'' cuda") (simp_all add: gather_runtime_def)
  from assms t m c c1 c2 obtain plat where p: "platform_tag_fn env = Inr plat"
    by (cases "platform_tag_fn env") (simp_all add: gather_runtime_def Let_def)
  from assms t m c c1 c2 p have
    "r = \<lparr>torch_version = tm_version torch, torch_major_minor = mm, torch_cuda = cuda,
          python_tag = ''cp'' @ str_nat (ie_version_major env) @ str_nat (ie_version_minor env),
          cxx11abi = (if tm_cxx11abi torch then ''TRUE'' else ''FALSE''),
          platform_tag = plat\<rparr>"
    by (simp add: gather_runtime_def Let_def)
  with t m c c1 c2 p show thesis by (rule that)
qed

text \<open>
  C10. Every fingerprint that \<open>_gather_runtime\<close> returns has \<open>cxx11abi\<close> equal to \<open>TRUE\<close>
  or \<open>FALSE\<close>; a non-empty \<open>torch_cuda\<close> that starts with \<open>12.\<close>; a \<open>torch_major_minor\<close>
  of the form digits, dot, digits that is a prefix of \<open>torch_version\<close> and is what the
  parser makes of it; the \<open>python_tag\<close> \<open>cp\<close> followed by the interpreter's major and minor
  numbers; and \<open>platform_tag\<close> \<open>linux_x86_64\<close> or \<open>linux_aarch64\<close>.
\<close>

theorem gather_runtime_invariant:
  assumes "gather_runtime env = Inr r"
  shows "(cxx11abi r = ''TRUE'' \<or> cxx11abi r = ''FALSE'')
       \<and> torch_cuda r \<noteq> [] \<and> prefix ''12.'' (torch_cuda r)
       \<and> is_major_minor (torch_major_minor r)
       \<and> prefix (torch_major_minor r) (torch_version r)
       \<and> parse_torch_major_minor (torch_version r) = Inr (torch_major_minor r)
       \<and> python_tag r = ''cp'' @ str_nat (ie_version_major env) @ str_nat (ie_version_minor env)
       \<and> (platform_tag r = ''linux_x86_64'' \<or> platform_tag r = ''linux_aarch64'')"
proof -
  from assms obtain torch mm cuda plat where
    "ie_import_torch env = Inr torch"
    and m: "parse_torch_major_minor (tm_version torch) = Inr mm"
    and "tm_cuda torch = Some cuda"
    and c: "cuda \<noteq> []" "prefix ''12.'' cuda"
    and p: "platform_tag_fn env = Inr plat"
    and r: "r = \<lparr>torch_version = tm_version torch, torch_major_minor = mm, torch_cuda = cuda,
          python_tag = ''cp'' @ str_nat (ie_version_major env) @ str_nat (ie_version_minor env),
          cxx11abi = (if tm_cxx11abi torch then ''TRUE'' else ''FALSE''),
          platform_tag = plat\<rparr>"
    by (rule gather_runtime_InrD)
  from parse_Inr_shape [OF m] have s: "is_major_minor mm" "prefix mm (tm_version torch)"
    by simp_all
  from platform_tag_fn_values [OF p] have q: "plat = ''linux_x86_64'' \<or> plat = ''linux_aarch64''" .
  from r m c s q show ?thesis by simp
qed

theorem gather_runtime_invariant_witness:
  "gather_runtime example_env = Inr example_runtime
   \<and> cxx11abi example_runtime = ''FALSE''
   \<and> prefix ''12.'' (torch_cuda example_runtime)
   \<and> is_major_minor (torch_major_minor example_runtime)
   \<and> prefix (torch_major_minor example_runtime) (torch_version example_runtime)
   \<and> python_tag example_runtime = ''cp'' @ str_nat 3 @ str_nat 10
   \<and> platform_tag example_runtime = ''linux_x86_64''"
proof -
  have g: "gather_runtime example_env = Inr example_runtime"
    by (rule gather_example)
  from gather_runtime_invariant [OF g] show ?thesis
    using g by (simp add: example_runtime_def example_env_def)
qed

lemma gather_runtime_wf: "gather_runtime env = Inr r \<Longrightarrow> wf_runtime r"
proof -
  assume g: "gather_runtime env = Inr r"
  then obtain torch mm cuda plat where
    "ie_import_torch env = Inr torch"
    and m: "parse_torch_major_minor (tm_version torch) = Inr mm"
    and "tm_cuda torch = Some cuda"
    and c: "cuda \<noteq> []" "prefix ''12.'' cuda"
    and p: "platform_tag_fn env = Inr plat"
    and r: "r = \<lparr>torch_version = tm_version torch, torch_major_minor = mm, torch_cuda = cuda,
          python_tag = ''cp'' @ str_nat (ie_version_major env) @ str_nat (ie_version_minor env),
          cxx11abi = (if tm_cxx11abi torch then ''TRUE'' else ''FALSE''),
          platform_tag = plat\<rparr>"
    by (rule gather_runtime_InrD)
  from parse_Inr_shape [OF m] have s: "is_major_minor mm" "prefix mm (tm_version torch)"
    by simp_all
  from platform_tag_fn_values [OF p] have q: "plat = ''linux_x86_64'' \<or> plat = ''linux_aarch64''" .
  have t: "is_python_tag (''cp'' @ str_nat (ie_version_major env) @ str_nat (ie_version_minor env))"
    using str_nat_digits [of "ie_version_major env"] str_nat_digits [of "ie_version_minor env"]
      str_nat_nonempty [of "ie_version_major env"]
    by (simp add: is_python_tag_def)
  from r s c q t show "wf_runtime r"
    by (simp add: wf_runtime_def)
qed

subsection \<open>The installer's pipeline\<close>

lemma startswith_12_major:
  assumes "prefix ''12.'' c"
  shows "takeWhile (\<lambda>x. x \<noteq> CHR ''.'') c = ''12''"
proof -
  from assms obtain t where "c = ''12.'' @ t" by (auto simp: prefix_def)
  then show ?thesis by simp
qed

lemma install_main_gather_error:
  "gather_runtime env = Inl e \<Longrightarrow> install_main a env = ([Import ''torch''], Inl e)"
  by (simp add: install_main_def)

lemma platform_tag_fn_index [simp]: "platform_tag_fn (env\<lparr>ie_index := x\<rparr>) = platform_tag_fn env"
  by (simp add: platform_tag_fn_def)

lemma platform_tag_fn_head [simp]: "platform_tag_fn (env\<lparr>ie_head := h\<rparr>) = platform_tag_fn env"
  by (simp add: platform_tag_fn_def)

lemma gather_runtime_index [simp]: "gather_runtime (env\<lparr>ie_index := x\<rparr>) = gather_runtime env"
  by (simp add: gather_runtime_def Let_def split: sum.splits)

lemma gather_runtime_head [simp]: "gather_runtime (env\<lparr>ie_head := h\<rparr>) = gather_runtime env"
  by (simp add: gather_runtime_def Let_def split: sum.splits)

text \<open>
  C8. When torch imports and the part of its CUDA version before the first dot (the empty
  text when \<open>torch.version.cuda\<close> is \<open>None\<close>) is not \<open>12\<close>, \<open>_gather_runtime\<close> raises, and
  \<open>main\<close> ends with that error after the import alone: nothing is printed, no address is
  built, no request is made.
\<close>

theorem cuda_major_not_12_rejected:
  assumes "ie_import_torch env = Inr torch"
    and "takeWhile (\<lambda>x. x \<noteq> CHR ''.'') (case tm_cuda torch of None \<Rightarrow> [] | Some c \<Rightarrow> c) \<noteq> ''12''"
  shows "\<exists>e. gather_runtime env = Inl e \<and> install_main a env = ([Import ''torch''], Inl e)"
proof (cases "gather_runtime env")
  case (Inl e)
  with install_main_gather_error [OF Inl, of a] show ?thesis by simp
next
  case (Inr r)
  then obtain torch' mm cuda plat where
    t: "ie_import_torch env = Inr torch'"
    and "parse_torch_major_minor (tm_version torch') = Inr mm"
    and c: "tm_cuda torch' = Some cuda"
    and "cuda \<noteq> []" and p: "prefix ''12.'' cuda"
    and "platform_tag_fn env = Inr plat"
    and "r = \<lparr>torch_version = tm_version torch', torch_major_minor = mm, torch_cuda = cuda,
          python_tag = ''cp'' @ str_nat (ie_version_major env) @ str_nat (ie_version_minor env),
          cxx11abi = (if tm_cxx11abi torch' then ''TRUE'' else ''FALSE''),
          platform_tag = plat\<rparr>"
    by (rule gather_runtime_InrD)
  from t assms(1) have "torch' = torch" by simp
  with c assms(2) startswith_12_major [OF p] show ?thesis by simp
qed

theorem cuda_major_not_12_rejected_witness:
  "gather_runtime (example_env\<lparr>ie_import_torch := Inr (example_torch\<lparr>tm_cuda := Some ''11.8''\<rparr>)\<rparr>)
     = Inl (RuntimeError (''Unsupported torch CUDA runtime 11.8. ''
                          @ ''This script currently targets flash-attn cu12 wheels.''))
   \<and> install_main example_args
        (example_env\<lparr>ie_import_torch := Inr (example_torch\<lparr>tm_cuda := Some ''11.8''\<rparr>)\<rparr>)
     = ([Import ''torch''],
        Inl (RuntimeError (''Unsupported torch CUDA runtime 11.8. ''
                           @ ''This script currently targets flash-attn cu12 wheels.'')))"
proof -
  let ?env = "example_env\<lparr>ie_import_torch := Inr (example_torch\<lparr>tm_cuda := Some ''11.8''\<rparr>)\<rparr>"
  have i: "ie_import_torch ?env = Inr (example_torch\<lparr>tm_cuda := Some ''11.8''\<rparr>)" by simp
  have m: "takeWhile (\<lambda>x. x \<noteq> CHR ''.'')
             (case tm_cuda (example_torch\<lparr>tm_cuda := Some ''11.8''\<rparr>) of None \<Rightarrow> [] | Some c \<Rightarrow> c)
           \<noteq> ''12''" by simp
  have g: "gather_runtime ?env
     = Inl (RuntimeError (''Unsupported torch CUDA runtime 11.8. ''
                          @ ''This script currently targets flash-attn cu12 wheels.''))"
    by (simp add: gather_runtime_def example_env_def example_torch_def parse_example)
  from cuda_major_not_12_rejected [OF i m, of example_args] g show ?thesis by simp
qed

text \<open>When the query for the latest release fails: lines 87 to 91.\<close>

lemma get_latest_release_tag_fails_iff:
  "get_latest_release_tag env = Inl e \<longleftrightarrow>
     ie_index env = Inl e
     \<or> (\<exists>ty. ie_index env = Inr (NotADict ty) \<and> e = no_attribute ty ''get'')
     \<or> (\<exists>v. ie_index env = Inr (Dict v) \<and> \<not> truthy v
            \<and> e = RuntimeError ''GitHub API response did not include tag_name.'')"
  by (auto simp: get_latest_release_tag_def split: sum.splits payload.splits)

lemma install_main_resolved:
  assumes "gather_runtime env = Inr runtime"
    and "resolve_release_tag a env = (evs, Inr (PyStr tag))"
  shows "install_main a env
         = (Import ''torch'' # evs @ fst (install_from a env runtime tag),
            snd (install_from a env runtime tag))"
  using assms by (simp add: install_main_def split: prod.splits)

text \<open>
  What the release index can answer so that the look-up raises an instance of
  \<open>Exception\<close>: the request, the read, the decoding or the parsing raises one (a network
  error, a timeout, a body that is no JSON); the document is no dictionary; \<open>tag_name\<close> is
  missing, \<open>None\<close>, empty or otherwise false. In each case the tag is \<open>v2.8.3\<close>, the notice
  with the exception is printed, and \<open>main\<close> goes on to the address for \<open>v2.8.3\<close>.
\<close>

lemma release_index_exception_falls_back:
  assumes "arg_release_tag a = None"
    and "ie_index env = Inl (Exn ty msg) \<and> exc = Exn ty msg
         \<or> ie_index env = Inr (NotADict ty) \<and> exc = no_attribute ty ''get''
         \<or> ie_index env = Inr (Dict v) \<and> \<not> truthy v
            \<and> exc = RuntimeError ''GitHub API response did not include tag_name.''"
  shows "resolve_release_tag a env
           = ([Get GITHUB_API_RELEASE_LATEST,
               Print (''Could not resolve latest release tag ('' @ exn_type exc @ '': ''
                      @ exn_msg exc @ ''). Falling back to v2.8.3.'')],
              Inr (PyStr ''v2.8.3''))"
    and "gather_runtime env = Inr runtime \<Longrightarrow>
         install_main a env
           = (Import ''torch'' # fst (resolve_release_tag a env)
                @ fst (install_from a env runtime ''v2.8.3''),
              snd (install_from a env runtime ''v2.8.3''))"
proof -
  from assms(2) have q: "get_latest_release_tag env = Inl exc" and e: "is_Exception exc"
    by (auto simp: get_latest_release_tag_def no_attribute_def)
  from assms(1) q e show r: "resolve_release_tag a env
           = ([Get GITHUB_API_RELEASE_LATEST,
               Print (''Could not resolve latest release tag ('' @ exn_type exc @ '': ''
                      @ exn_msg exc @ ''). Falling back to v2.8.3.'')],
              Inr (PyStr ''v2.8.3''))"
    by (simp add: resolve_release_tag_def DEFAULT_RELEASE_TAG_def)
  assume "gather_runtime env = Inr runtime"
  from install_main_resolved [OF this r] r show "install_main a env
           = (Import ''torch'' # fst (resolve_release_tag a env)
                @ fst (install_from a env runtime ''v2.8.3''),
              snd (install_from a env runtime ''v2.8.3''))"
    by simp
qed

text \<open>An exception outside \<open>Exception\<close> raised by the request passes through line 166.\<close>

lemma release_index_interrupt_propagates:
  assumes "arg_release_tag a = None" and "ie_index env = Inl (BaseExn ty msg)"
    and "gather_runtime env = Inr runtime"
  shows "install_main a env
         = ([Import ''torch'', Get GITHUB_API_RELEASE_LATEST], Inl (BaseExn ty msg))"
  using assms
  by (simp add: install_main_def resolve_release_tag_def get_latest_release_tag_def)

text \<open>
  C7 (a failed query for the latest release, a malformed answer included, always ends in the
  tag \<open>v2.8.3\<close> with the notice, and never aborts the run) does not hold of the code. When
  the release index answers with a document whose \<open>tag_name\<close> is the number 123, the
  look-up returns 123 although it is declared to return a string, line 165 prints it as the
  latest tag, and \<open>lstrip\<close> on line 128, outside the \<open>try\<close>, raises \<open>AttributeError\<close>: no
  notice, no tag \<open>v2.8.3\<close>, and the run is aborted.
\<close>

theorem nonstring_tag_aborts_without_fallback:
  "arg_release_tag example_args = None
   \<and> ie_index (example_env\<lparr>ie_index := Inr (Dict (PyOther ''int'' True ''123''))\<rparr>)
       = Inr (Dict (PyOther ''int'' True ''123''))
   \<and> gather_runtime (example_env\<lparr>ie_index := Inr (Dict (PyOther ''int'' True ''123''))\<rparr>)
       = Inr example_runtime
   \<and> resolve_release_tag example_args
         (example_env\<lparr>ie_index := Inr (Dict (PyOther ''int'' True ''123''))\<rparr>)
       = ([Get GITHUB_API_RELEASE_LATEST, Print ''Using latest release tag: 123''],
          Inr (PyOther ''int'' True ''123''))
   \<and> install_main example_args
         (example_env\<lparr>ie_index := Inr (Dict (PyOther ''int'' True ''123''))\<rparr>)
       = ([Import ''torch'', Get GITHUB_API_RELEASE_LATEST,
           Print ''Using latest release tag: 123''],
          Inl (Exn ''AttributeError''
                 ([CHR 0x27] @ ''int'' @ [CHR 0x27] @ '' object has no attribute ''
                    @ [CHR 0x27] @ ''lstrip'' @ [CHR 0x27])))"
proof -
  let ?env = "example_env\<lparr>ie_index := Inr (Dict (PyOther ''int'' True ''123''))\<rparr>"
  have g: "gather_runtime ?env = Inr example_runtime"
    using gather_example by simp
  have r: "resolve_release_tag example_args ?env
       = ([Get GITHUB_API_RELEASE_LATEST, Print ''Using latest release tag: 123''],
          Inr (PyOther ''int'' True ''123''))"
    by (simp add: resolve_release_tag_def get_latest_release_tag_def example_args_def)
  from g r show ?thesis
    by (simp add: install_main_def no_attribute_def example_args_def)
qed

subsection \<open>What the pipeline does not depend on\<close>

lemma install_from_index [simp]:
  "install_from a (env\<lparr>ie_index := x\<rparr>) runtime tag = install_from a env runtime tag"
  by (simp add: install_from_def wheel_exists_def install_cmd_def Let_def
        split: sum.splits bool.splits prod.splits)

lemma resolve_explicit:
  "arg_release_tag a = Some t \<Longrightarrow> resolve_release_tag a env = ([], Inr (PyStr t))"
  by (simp add: resolve_release_tag_def)

lemma install_main_explicit:
  assumes "arg_release_tag a = Some t"
  shows "install_main a env =
     (case gather_runtime env of
        Inl e \<Rightarrow> ([Import ''torch''], Inl e)
      | Inr runtime \<Rightarrow> (Import ''torch'' # fst (install_from a env runtime t),
                        snd (install_from a env runtime t)))"
  using resolve_explicit [OF assms, of env]
  by (simp add: install_main_def split: sum.splits prod.splits)

lemma install_from_events:
  "ev \<in> set (fst (install_from a env runtime tag)) \<Longrightarrow>
     (\<exists>l. ev = Print l) \<or> ev = Head (wheel_url tag runtime) \<or> ev = Which ''uv''
     \<or> (\<exists>cmd. ev = Run cmd)"
  by (auto simp: install_from_def install_cmd_def Let_def
        split: sum.splits bool.splits if_splits prod.splits)

lemma install_from_head:
  "Head (wheel_url tag runtime) \<in> set (fst (install_from a env runtime tag))"
  by (auto simp: install_from_def install_cmd_def Let_def
        split: sum.splits bool.splits if_splits prod.splits)

lemma install_from_resolved_line:
  "Print (''Resolved wheel: '' @ wheel_url tag runtime)
     \<in> set (fst (install_from a env runtime tag))"
  by (auto simp: install_from_def install_cmd_def Let_def
        split: sum.splits bool.splits if_splits prod.splits)

lemma install_from_no_get: "Get u \<notin> set (fst (install_from a env runtime tag))"
  using install_from_events [of "Get u" a env runtime tag] by auto


lemma resolve_events:
  "ev \<in> set (fst (resolve_release_tag a env)) \<Longrightarrow>
     ev = Get GITHUB_API_RELEASE_LATEST \<or> (\<exists>l. ev = Print l)"
  by (auto simp: resolve_release_tag_def split: option.splits sum.splits if_splits)

text \<open>
  C9. With an explicit \<open>--release-tag\<close> the resolved tag is the given one, no request to
  the release index is made, and for any two answers of the release index the runs of
  \<open>main\<close> are the same; the address printed and checked is the one built from the given
  tag and the gathered fingerprint.
\<close>

theorem explicit_release_tag_skips_index:
  "resolve_release_tag (a\<lparr>arg_release_tag := Some t\<rparr>) (env\<lparr>ie_index := x\<rparr>)
     = ([], Inr (PyStr t))
   \<and> install_main (a\<lparr>arg_release_tag := Some t\<rparr>) (env\<lparr>ie_index := x\<rparr>)
       = install_main (a\<lparr>arg_release_tag := Some t\<rparr>) (env\<lparr>ie_index := y\<rparr>)
   \<and> (\<forall>u. Get u \<notin> set (fst (install_main (a\<lparr>arg_release_tag := Some t\<rparr>)
                                  (env\<lparr>ie_index := x\<rparr>))))
   \<and> (\<forall>runtime. gather_runtime env = Inr runtime \<longrightarrow>
          Print (''Resolved wheel: '' @ wheel_url t runtime)
            \<in> set (fst (install_main (a\<lparr>arg_release_tag := Some t\<rparr>) (env\<lparr>ie_index := x\<rparr>)))
          \<and> Head (wheel_url t runtime)
            \<in> set (fst (install_main (a\<lparr>arg_release_tag := Some t\<rparr>) (env\<lparr>ie_index := x\<rparr>))))"
proof -
  let ?a = "a\<lparr>arg_release_tag := Some t\<rparr>"
  have t: "arg_release_tag ?a = Some t" by simp
  have m: "\<And>z. install_main ?a (env\<lparr>ie_index := z\<rparr>) =
     (case gather_runtime env of
        Inl e \<Rightarrow> ([Import ''torch''], Inl e)
      | Inr runtime \<Rightarrow> (Import ''torch'' # fst (install_from ?a env runtime t),
                        snd (install_from ?a env runtime t)))"
    using install_main_explicit [OF t] by (simp split: sum.splits)
  have 1: "resolve_release_tag ?a (env\<lparr>ie_index := x\<rparr>) = ([], Inr (PyStr t))"
    by (rule resolve_explicit [OF t])
  have 2: "install_main ?a (env\<lparr>ie_index := x\<rparr>) = install_main ?a (env\<lparr>ie_index := y\<rparr>)"
    by (simp only: m)
  have 3: "\<forall>u. Get u \<notin> set (fst (install_main ?a (env\<lparr>ie_index := x\<rparr>)))"
    by (simp add: m install_from_no_get split: sum.splits)
  have 4: "\<forall>runtime. gather_runtime env = Inr runtime \<longrightarrow>
          Print (''Resolved wheel: '' @ wheel_url t runtime)
            \<in> set (fst (install_main ?a (env\<lparr>ie_index := x\<rparr>)))
          \<and> Head (wheel_url t runtime) \<in> set (fst (install_main ?a (env\<lparr>ie_index := x\<rparr>)))"
  proof (intro allI impI)
    fix runtime
    assume g: "gather_runtime env = Inr runtime"
    have f: "fst (install_main ?a (env\<lparr>ie_index := x\<rparr>))
             = Import ''torch'' # fst (install_from ?a env runtime t)"
      by (simp add: m g)
    have "Print (''Resolved wheel: '' @ wheel_url t runtime)
            \<in> set (fst (install_from ?a env runtime t))"
      by (rule install_from_resolved_line)
    moreover have "Head (wheel_url t runtime) \<in> set (fst (install_from ?a env runtime t))"
      by (rule install_from_head)
    ultimately show "Print (''Resolved wheel: '' @ wheel_url t runtime)
            \<in> set (fst (install_main ?a (env\<lparr>ie_index := x\<rparr>)))
          \<and> Head (wheel_url t runtime) \<in> set (fst (install_main ?a (env\<lparr>ie_index := x\<rparr>)))"
      by (simp add: f)
  qed
  from 1 2 3 4 show ?thesis by (intro conjI)
qed

theorem explicit_release_tag_skips_index_witness:
  "gather_runtime example_env = Inr example_runtime
   \<and> Head (wheel_url ''v2.7.4'' example_runtime)
       \<in> set (fst (install_main (example_args\<lparr>arg_release_tag := Some ''v2.7.4''\<rparr>)
                      (example_env\<lparr>ie_index := Inl (Exn ''URLError'' ''timed out'')\<rparr>)))
   \<and> install_main (example_args\<lparr>arg_release_tag := Some ''v2.7.4''\<rparr>)
        (example_env\<lparr>ie_index := Inl (Exn ''URLError'' ''timed out'')\<rparr>)
     = install_main (example_args\<lparr>arg_release_tag := Some ''v2.7.4''\<rparr>)
        (example_env\<lparr>ie_index := Inr (Dict (PyStr ''v9.9.9''))\<rparr>)"
  using explicit_release_tag_skips_index [where a = example_args and t = "''v2.7.4''"
          and env = example_env and x = "Inl (Exn ''URLError'' ''timed out'')"
          and y = "Inr (Dict (PyStr ''v9.9.9''))"]
    gather_example
  by blast

subsection \<open>The existence check\<close>

lemma wheel_exists_cases:
  "wheel_exists env url =
     (case ie_head env url of
        HeadOk \<Rightarrow> Inr True
      | HeadHTTPError code msg \<Rightarrow> if code = 404 then Inr False else Inl (Exn ''HTTPError'' msg)
      | HeadRaised exc \<Rightarrow> Inl exc)"
  by (simp add: wheel_exists_def)

lemma install_from_not_found:
  assumes "wheel_exists env (wheel_url tag runtime) = Inr False"
  shows "snd (install_from a env runtime tag) = Inr 2"
    and "Run cmd \<notin> set (fst (install_from a env runtime tag))"
  using assms by (simp_all add: install_from_def Let_def)

lemma install_from_raised:
  assumes "wheel_exists env (wheel_url tag runtime) = Inl exc"
  shows "snd (install_from a env runtime tag) = Inl exc"
    and "Run cmd \<notin> set (fst (install_from a env runtime tag))"
  using assms by (simp_all add: install_from_def Let_def)

lemma resolve_no_run: "Run cmd \<notin> set (fst (resolve_release_tag a env))"
  using resolve_events [of "Run cmd" a env] by auto

text \<open>
  C6. Once the fingerprint is gathered and the tag resolved, an \<open>HTTPError\<close> with code
  404 on the \<open>HEAD\<close> request for the address makes \<open>main\<close> return 2 without starting a
  subprocess; an \<open>HTTPError\<close> with another code, or any other exception of the request,
  leaves \<open>main\<close> as that exception, again without a subprocess.
\<close>

theorem not_found_exits_2_without_install:
  assumes "gather_runtime env = Inr runtime"
    and "resolve_release_tag a env = (evs, Inr (PyStr tag))"
  shows "(ie_head env (wheel_url tag runtime) = HeadHTTPError 404 msg \<longrightarrow>
            snd (install_main a env) = Inr 2
            \<and> (\<forall>cmd. Run cmd \<notin> set (fst (install_main a env))))
       \<and> (ie_head env (wheel_url tag runtime) = HeadHTTPError code msg \<and> code \<noteq> 404 \<longrightarrow>
            snd (install_main a env) = Inl (Exn ''HTTPError'' msg)
            \<and> (\<forall>cmd. Run cmd \<notin> set (fst (install_main a env))))
       \<and> (ie_head env (wheel_url tag runtime) = HeadRaised exc \<longrightarrow>
            snd (install_main a env) = Inl exc
            \<and> (\<forall>cmd. Run cmd \<notin> set (fst (install_main a env))))"
proof -
  note m = install_main_resolved [OF assms]
  have e: "\<And>cmd. Run cmd \<notin> set evs"
    using resolve_no_run [of _ a env] assms(2) by simp
  have 1: "snd (install_main a env) = Inr 2 \<and> (\<forall>cmd. Run cmd \<notin> set (fst (install_main a env)))"
    if "ie_head env (wheel_url tag runtime) = HeadHTTPError 404 msg"
  proof -
    from that have "wheel_exists env (wheel_url tag runtime) = Inr False"
      by (simp add: wheel_exists_def)
    from install_from_not_found [OF this, where a = a] e show ?thesis
      by (simp add: m)
  qed
  have 2: "snd (install_main a env) = Inl (Exn ''HTTPError'' msg)
           \<and> (\<forall>cmd. Run cmd \<notin> set (fst (install_main a env)))"
    if "ie_head env (wheel_url tag runtime) = HeadHTTPError code msg \<and> code \<noteq> 404"
  proof -
    from that have "wheel_exists env (wheel_url tag runtime) = Inl (Exn ''HTTPError'' msg)"
      by (simp add: wheel_exists_def)
    from install_from_raised [OF this, where a = a] e show ?thesis
      by (simp add: m)
  qed
  have 3: "snd (install_main a env) = Inl exc
           \<and> (\<forall>cmd. Run cmd \<notin> set (fst (install_main a env)))"
    if "ie_head env (wheel_url tag runtime) = HeadRaised exc"
  proof -
    from that have "wheel_exists env (wheel_url tag runtime) = Inl exc"
      by (simp add: wheel_exists_def)
    from install_from_raised [OF this, where a = a] e show ?thesis
      by (simp add: m)
  qed
  from 1 2 3 show ?thesis by blast
qed


theorem not_found_exits_2_without_install_witness:
  "snd (install_main (example_args\<lparr>arg_release_tag := Some ''v2.8.3''\<rparr>)
          (example_env\<lparr>ie_head := (\<lambda>url. HeadHTTPError 404 ''HTTP Error 404: Not Found'')\<rparr>))
     = Inr 2
   \<and> (\<forall>cmd. Run cmd \<notin> set (fst (install_main (example_args\<lparr>arg_release_tag := Some ''v2.8.3''\<rparr>)
          (example_env\<lparr>ie_head := (\<lambda>url. HeadHTTPError 404 ''HTTP Error 404: Not Found'')\<rparr>))))
   \<and> snd (install_main (example_args\<lparr>arg_release_tag := Some ''v2.8.3''\<rparr>)
          (example_env\<lparr>ie_head := (\<lambda>url. HeadHTTPError 503 ''HTTP Error 503: Service Unavailable'')\<rparr>))
     = Inl (Exn ''HTTPError'' ''HTTP Error 503: Service Unavailable'')
   \<and> snd (install_main (example_args\<lparr>arg_release_tag := Some ''v2.8.3''\<rparr>)
          (example_env\<lparr>ie_head := (\<lambda>url. HeadRaised (Exn ''URLError'' ''timed out''))\<rparr>))
     = Inl (Exn ''URLError'' ''timed out'')"
proof -
  let ?a = "example_args\<lparr>arg_release_tag := Some ''v2.8.3''\<rparr>"
  have g: "\<And>h. gather_runtime (example_env\<lparr>ie_head := h\<rparr>) = Inr example_runtime"
    using gather_example by simp
  have r: "\<And>h. resolve_release_tag ?a (example_env\<lparr>ie_head := h\<rparr>)
             = ([], Inr (PyStr ''v2.8.3''))"
    by (simp add: resolve_release_tag_def)
  from not_found_exits_2_without_install [OF g r,
      where msg = "''HTTP Error 404: Not Found''" and code = 404]
  have 1: "snd (install_main ?a
              (example_env\<lparr>ie_head := (\<lambda>url. HeadHTTPError 404 ''HTTP Error 404: Not Found'')\<rparr>))
           = Inr 2
         \<and> (\<forall>cmd. Run cmd \<notin> set (fst (install_main ?a
              (example_env\<lparr>ie_head := (\<lambda>url. HeadHTTPError 404 ''HTTP Error 404: Not Found'')\<rparr>))))"
    by simp
  from not_found_exits_2_without_install [OF g r,
      where msg = "''HTTP Error 503: Service Unavailable''" and code = 503]
  have 2: "snd (install_main ?a
              (example_env\<lparr>ie_head := (\<lambda>url. HeadHTTPError 503 ''HTTP Error 503: Service Unavailable'')\<rparr>))
           = Inl (Exn ''HTTPError'' ''HTTP Error 503: Service Unavailable'')"
    by simp
  from not_found_exits_2_without_install [OF g r,
      where exc = "Exn ''URLError'' ''timed out''"]
  have 3: "snd (install_main ?a
              (example_env\<lparr>ie_head := (\<lambda>url. HeadRaised (Exn ''URLError'' ''timed out''))\<rparr>))
           = Inl (Exn ''URLError'' ''timed out'')"
    by simp
  from 1 2 3 show ?thesis by simp
qed

subsection \<open>The inspector\<close>

lemma py_in_sublist: "py_in p s \<longleftrightarrow> sublist p s"
  by (induction s) (simp_all add: sublist_Cons_right)

lemma splitlines_empty_iff: "splitlines s = [] \<longleftrightarrow> s = []"
  by (induction s rule: splitlines.induct) (simp_all split: list.splits)

lemma cmd_output_failed:
  assumes "de_check_output env cmd = Inl exc" and "is_Exception exc"
  shows "\<exists>s. cmd_output env cmd = Inr s \<and> splitlines s \<noteq> []"
proof -
  let ?s = "''<unavailable: '' @ exn_type exc @ '': '' @ exn_msg exc @ ''>''"
  from assms have "cmd_output env cmd = Inr ?s"
    by (simp add: cmd_output_def)
  moreover have "?s \<noteq> []" by simp
  then have "splitlines ?s \<noteq> []"
    by (simp only: splitlines_empty_iff not_False_eq_True)
  ultimately show ?thesis by blast
qed

lemma cmd_output_not_blank:
  assumes "de_check_output env cmd = Inr out" and "py_strip out \<noteq> []"
  shows "\<exists>s. cmd_output env cmd = Inr s \<and> splitlines s \<noteq> []"
proof -
  from assms(1) have "cmd_output env cmd = Inr (py_strip out)"
    by (simp add: cmd_output_def)
  moreover from assms(2) have "splitlines (py_strip out) \<noteq> []"
    by (simp only: splitlines_empty_iff not_False_eq_True)
  ultimately show ?thesis by blast
qed

lemma cmd_output_blank:
  "de_check_output env cmd = Inr out \<Longrightarrow> py_strip out = [] \<Longrightarrow> cmd_output env cmd = Inr []"
  by (simp add: cmd_output_def)

lemma print_runtime_crash_nvcc:
  "cmd_output env nvcc_cmd = Inr [] \<Longrightarrow> snd (print_runtime env) = Inl IndexError"
  by (simp add: print_runtime_def Let_def)

lemma print_runtime_returns:
  assumes "cmd_output env nvcc_cmd = Inr s" "splitlines s \<noteq> []"
    and "cmd_output env smi_cmd = Inr s'" "splitlines s' \<noteq> []"
  shows "snd (print_runtime env) = Inr ()"
  using assms by (simp add: print_runtime_def Let_def split: list.splits)

lemma diagnose_main_crash:
  "snd (print_runtime env) = Inl exc \<Longrightarrow> snd (diagnose_main env) = Inl exc"
  by (cases "print_runtime env") (simp add: diagnose_main_def split: sum.splits)

lemma diagnose_main_returns:
  assumes "snd (print_runtime env) = Inr ()"
  shows "diagnose_main env
         = (fst (print_runtime env) @ fst (diagnose_imports env), snd (diagnose_imports env))"
  using assms
  by (cases "print_runtime env") (simp add: diagnose_main_def split: sum.splits prod.splits)

text \<open>
  The exit codes of the three imports, in the order of the attempts, when every exception
  they raise is an instance of \<open>Exception\<close>.
\<close>

lemma diagnose_imports_code:
  assumes "\<forall>exc. de_import_torch env = Inl exc \<or> de_import_flash_attn env = Inl exc
             \<or> de_import_ext env = Inl exc \<longrightarrow> is_Exception exc"
  shows "snd (diagnose_imports env) =
     Inr (case de_import_torch env of Inl _ \<Rightarrow> 1
      | Inr _ \<Rightarrow> (case de_import_flash_attn env of Inl _ \<Rightarrow> 2
         | Inr _ \<Rightarrow> (case de_import_ext env of Inl _ \<Rightarrow> 3 | Inr _ \<Rightarrow> 0)))"
  using assms by (simp add: diagnose_imports_def Let_def split: sum.splits)

text \<open>
  Probe commands that fail with an instance of \<open>Exception\<close>, or that print something besides
  white space, never make the inspector raise: with imports that raise instances of
  \<open>Exception\<close> only, it returns one of the four codes.
\<close>

lemma diagnose_main_exit_codes:
  assumes "\<forall>cmd\<in>{nvcc_cmd, smi_cmd}. case de_check_output env cmd of
              Inl exc \<Rightarrow> is_Exception exc | Inr out \<Rightarrow> py_strip out \<noteq> []"
    and "\<forall>exc. de_import_torch env = Inl exc \<or> de_import_flash_attn env = Inl exc
             \<or> de_import_ext env = Inl exc \<longrightarrow> is_Exception exc"
  shows "\<exists>code. snd (diagnose_main env) = Inr code \<and> code \<in> {0, 1, 2, 3}"
proof -
  have p: "\<exists>s. cmd_output env cmd = Inr s \<and> splitlines s \<noteq> []"
    if "cmd \<in> {nvcc_cmd, smi_cmd}" for cmd
  proof (cases "de_check_output env cmd")
    case (Inl exc)
    with assms(1) that have "is_Exception exc" by auto
    with Inl show ?thesis by (rule cmd_output_failed)
  next
    case (Inr out)
    with assms(1) that have "py_strip out \<noteq> []" by auto
    with Inr show ?thesis by (rule cmd_output_not_blank)
  qed
  from p [of nvcc_cmd] obtain s where s: "cmd_output env nvcc_cmd = Inr s" "splitlines s \<noteq> []"
    by auto
  from p [of smi_cmd] obtain s' where s': "cmd_output env smi_cmd = Inr s'" "splitlines s' \<noteq> []"
    by auto
  from s s' have "snd (print_runtime env) = Inr ()"
    by (rule print_runtime_returns)
  from diagnose_main_returns [OF this] diagnose_imports_code [OF assms(2)] show ?thesis
    by (simp split: sum.splits)
qed

lemma diagnose_imports_ext_failed:
  assumes "de_import_torch env = Inr torch" "de_import_flash_attn env = Inr fa"
    "de_import_ext env = Inl exc" "is_Exception exc"
  shows "snd (diagnose_imports env) = Inr 3"
    and "py_in ''undefined symbol'' (exn_msg exc) \<Longrightarrow>
         \<exists>pre. fst (diagnose_imports env) = pre @ abi_diagnosis torch"
  using assms by (simp_all add: diagnose_imports_def Let_def)

lemma diagnose_imports_ext_escapes:
  assumes "de_import_torch env = Inr torch" "de_import_flash_attn env = Inr fa"
    "de_import_ext env = Inl exc" "\<not> is_Exception exc"
  shows "snd (diagnose_imports env) = Inl exc"
  using assms by (simp add: diagnose_imports_def Let_def)

lemma ext_import_failed_after_runtime:
  assumes "snd (print_runtime env) = Inr ()"
    and "de_import_torch env = Inr torch" and "de_import_flash_attn env = Inr fa"
    and "de_import_ext env = Inl exc" and "is_Exception exc"
  shows "snd (diagnose_main env) = Inr 3
       \<and> (sublist ''undefined symbol'' (exn_msg exc) \<longrightarrow>
            (\<exists>pre. fst (diagnose_main env) = pre @
               [Print (''Diagnosis: ABI mismatch. flash-attn was built against a different ''
                       @ ''PyTorch/CUDA runtime than the current one (torch='' @ tm_version torch
                       @ '', cuda='' @ (case tm_cuda torch of None \<Rightarrow> ''None'' | Some c \<Rightarrow> c)
                       @ '').''),
                Print ''Fix: reinstall flash-attn in this exact env after torch is finalized.'',
                Print ''Command: uv run python scripts/install_prebuilt_flash_attn.py'']))"
proof -
  note m = diagnose_main_returns [OF assms(1)]
  from diagnose_imports_ext_failed(1) [OF assms(2-5)] m
  have 1: "snd (diagnose_main env) = Inr 3" by simp
  have 2: "\<exists>pre. fst (diagnose_main env) = pre @ abi_diagnosis torch"
    if "sublist ''undefined symbol'' (exn_msg exc)"
  proof -
    from that have "py_in ''undefined symbol'' (exn_msg exc)"
      by (simp only: py_in_sublist)
    from diagnose_imports_ext_failed(2) [OF assms(2-5) this]
    obtain pre where "fst (diagnose_imports env) = pre @ abi_diagnosis torch" ..
    with m have "fst (diagnose_main env) = (fst (print_runtime env) @ pre) @ abi_diagnosis torch"
      by simp
    then show ?thesis ..
  qed
  from 1 2 show ?thesis
    unfolding abi_diagnosis_def by blast
qed

lemma example_print_runtime: "snd (print_runtime example_diag_env) = Inr ()"
  by (simp add: print_runtime_def example_diag_env_def cmd_output_def py_strip_def
        is_space_def is_linebreak_def nvcc_cmd_def smi_cmd_def)

lemma print_runtime_events:
  "ev \<in> set (fst (print_runtime env)) \<Longrightarrow> (\<exists>l. ev = Print l) \<or> (\<exists>cmd. ev = Run cmd)"
  by (auto simp: print_runtime_def Let_def split: list.splits sum.splits)

lemma diagnose_imports_reaches_ext:
  assumes "Import ''flash_attn_2_cuda'' \<in> set (fst (diagnose_imports env))"
  shows "\<exists>torch fa. de_import_torch env = Inr torch \<and> de_import_flash_attn env = Inr fa"
proof (cases "de_import_torch env")
  case (Inl e)
  with assms show ?thesis by (simp add: diagnose_imports_def split: if_splits)
next
  case t: (Inr torch)
  show ?thesis
  proof (cases "de_import_flash_attn env")
    case (Inl e)
    with assms t show ?thesis by (simp add: diagnose_imports_def Let_def split: if_splits)
  next
    case (Inr fa)
    with t show ?thesis by simp
  qed
qed

lemma diagnose_main_reaches_ext:
  assumes "Import ''flash_attn_2_cuda'' \<in> set (fst (diagnose_main env))"
  shows "snd (print_runtime env) = Inr ()
       \<and> (\<exists>torch fa. de_import_torch env = Inr torch \<and> de_import_flash_attn env = Inr fa)"
proof (cases "snd (print_runtime env)")
  case (Inl exc)
  then have "fst (diagnose_main env) = fst (print_runtime env)"
    by (cases "print_runtime env") (simp add: diagnose_main_def)
  with assms print_runtime_events [of "Import ''flash_attn_2_cuda''" env] show ?thesis
    by auto
next
  case (Inr u)
  then have r: "snd (print_runtime env) = Inr ()" by simp
  from diagnose_main_returns [OF r] assms
  have "Import ''flash_attn_2_cuda'' \<in> set (fst (print_runtime env))
        \<or> Import ''flash_attn_2_cuda'' \<in> set (fst (diagnose_imports env))"
    by simp
  with print_runtime_events [of "Import ''flash_attn_2_cuda''" env]
  have "Import ''flash_attn_2_cuda'' \<in> set (fst (diagnose_imports env))"
    by auto
  from diagnose_imports_reaches_ext [OF this] r show ?thesis by simp
qed

text \<open>
  C5 (as the code has it). Whenever the import of \<open>flash_attn_2_cuda\<close> is attempted and
  raises an instance of \<open>Exception\<close>, which is what \<open>_try_import\<close> catches, \<open>main\<close> returns 3;
  and when that exception's message contains \<open>undefined symbol\<close>, the last three lines
  printed are the ABI-mismatch diagnosis, the fix and the command that runs the installer.
  An exception of the import that is no instance of \<open>Exception\<close> is not caught: \<open>main\<close> ends
  with it and returns no code.
\<close>

theorem ext_import_failure_diagnosed:
  assumes "Import ''flash_attn_2_cuda'' \<in> set (fst (diagnose_main env))"
    and "de_import_ext env = Inl exc"
  shows "(is_Exception exc \<longrightarrow>
            snd (diagnose_main env) = Inr 3
            \<and> (sublist ''undefined symbol'' (exn_msg exc) \<longrightarrow>
                 (\<exists>pre torch. de_import_torch env = Inr torch \<and> fst (diagnose_main env) = pre @
                    [Print (''Diagnosis: ABI mismatch. flash-attn was built against a different ''
                            @ ''PyTorch/CUDA runtime than the current one (torch=''
                            @ tm_version torch @ '', cuda=''
                            @ (case tm_cuda torch of None \<Rightarrow> ''None'' | Some c \<Rightarrow> c) @ '').''),
                     Print ''Fix: reinstall flash-attn in this exact env after torch is finalized.'',
                     Print ''Command: uv run python scripts/install_prebuilt_flash_attn.py''])))
       \<and> (\<not> is_Exception exc \<longrightarrow> snd (diagnose_main env) = Inl exc)"
proof -
  from diagnose_main_reaches_ext [OF assms(1)] obtain torch fa where
    r: "snd (print_runtime env) = Inr ()"
    and t: "de_import_torch env = Inr torch" and f: "de_import_flash_attn env = Inr fa"
    by blast
  have 1: "snd (diagnose_main env) = Inr 3
            \<and> (sublist ''undefined symbol'' (exn_msg exc) \<longrightarrow>
                 (\<exists>pre torch. de_import_torch env = Inr torch \<and> fst (diagnose_main env) = pre @
                    [Print (''Diagnosis: ABI mismatch. flash-attn was built against a different ''
                            @ ''PyTorch/CUDA runtime than the current one (torch=''
                            @ tm_version torch @ '', cuda=''
                            @ (case tm_cuda torch of None \<Rightarrow> ''None'' | Some c \<Rightarrow> c) @ '').''),
                     Print ''Fix: reinstall flash-attn in this exact env after torch is finalized.'',
                     Print ''Command: uv run python scripts/install_prebuilt_flash_attn.py'']))"
    if "is_Exception exc"
    using ext_import_failed_after_runtime [OF r t f assms(2) that] t by blast
  have 2: "snd (diagnose_main env) = Inl exc" if "\<not> is_Exception exc"
    using diagnose_imports_ext_escapes [OF t f assms(2) that] diagnose_main_returns [OF r]
    by simp
  from 1 2 show ?thesis by blast
qed

lemma example_reaches_ext:
  "Import ''flash_attn_2_cuda'' \<in> set (fst (diagnose_main example_diag_env))"
proof -
  have "Import ''flash_attn_2_cuda'' \<in> set (fst (diagnose_imports example_diag_env))"
    by (simp add: diagnose_imports_def example_diag_env_def Let_def)
  with diagnose_main_returns [OF example_print_runtime] show ?thesis by simp
qed

lemma example_system_exit_run:
  "fst (diagnose_main (example_diag_env\<lparr>de_import_ext := Inl (BaseExn ''SystemExit'' ''5'')\<rparr>))
   = fst (print_runtime example_diag_env)
     @ [Import ''torch'', Print ''torch: 2.4.0+cu121'', Print ''torch.version.cuda: 12.1'',
        Print ''torch.cuda.is_available: True'', Import ''flash_attn'',
        Print ''flash_attn: 2.8.3'', Import ''flash_attn_2_cuda'']"
proof -
  let ?env = "example_diag_env\<lparr>de_import_ext := Inl (BaseExn ''SystemExit'' ''5'')\<rparr>"
  have p: "print_runtime ?env = print_runtime example_diag_env"
    by (simp add: print_runtime_def example_diag_env_def cmd_output_def py_strip_def
          is_space_def is_linebreak_def nvcc_cmd_def smi_cmd_def)
  with example_print_runtime have r: "snd (print_runtime ?env) = Inr ()" by simp
  have i: "fst (diagnose_imports ?env)
           = [Import ''torch'', Print ''torch: 2.4.0+cu121'', Print ''torch.version.cuda: 12.1'',
              Print ''torch.cuda.is_available: True'', Import ''flash_attn'',
              Print ''flash_attn: 2.8.3'', Import ''flash_attn_2_cuda'']"
    by (simp add: diagnose_imports_def example_diag_env_def example_torch_def str_bool_def)
  from diagnose_main_returns [OF r] p i show ?thesis by simp
qed

theorem ext_import_failure_diagnosed_witness:
  "Import ''flash_attn_2_cuda'' \<in> set (fst (diagnose_main example_diag_env))
   \<and> de_import_ext example_diag_env
       = Inl (Exn ''ImportError'' (''lib.so: '' @ ''undefined symbol'' @ '': _Z1f''))
   \<and> snd (diagnose_main example_diag_env) = Inr 3
   \<and> snd (diagnose_main (example_diag_env\<lparr>de_import_ext := Inl (BaseExn ''SystemExit'' ''5'')\<rparr>))
       = Inl (BaseExn ''SystemExit'' ''5'')
   \<and> (\<exists>pre. fst (diagnose_main example_diag_env) = pre @
         [Print (''Diagnosis: ABI mismatch. flash-attn was built against a different ''
                 @ ''PyTorch/CUDA runtime than the current one (torch=2.4.0+cu121, cuda=12.1).''),
          Print ''Fix: reinstall flash-attn in this exact env after torch is finalized.'',
          Print ''Command: uv run python scripts/install_prebuilt_flash_attn.py''])"
proof -
  have t: "de_import_torch example_diag_env = Inr example_torch"
    and e: "de_import_ext example_diag_env
            = Inl (Exn ''ImportError'' (''lib.so: '' @ ''undefined symbol'' @ '': _Z1f''))"
    by (simp_all add: example_diag_env_def)
  have s: "sublist ''undefined symbol''
             (exn_msg (Exn ''ImportError'' (''lib.so: '' @ ''undefined symbol'' @ '': _Z1f'')))"
    unfolding exn.sel by (rule sublist_appendI)
  have x: "is_Exception (Exn ''ImportError'' (''lib.so: '' @ ''undefined symbol'' @ '': _Z1f''))"
    by simp
  from ext_import_failure_diagnosed [OF example_reaches_ext e] s x example_reaches_ext e t
  have 1: "snd (diagnose_main example_diag_env) = Inr 3
   \<and> (\<exists>pre. fst (diagnose_main example_diag_env) = pre @
         [Print (''Diagnosis: ABI mismatch. flash-attn was built against a different ''
                 @ ''PyTorch/CUDA runtime than the current one (torch=2.4.0+cu121, cuda=12.1).''),
          Print ''Fix: reinstall flash-attn in this exact env after torch is finalized.'',
          Print ''Command: uv run python scripts/install_prebuilt_flash_attn.py''])"
    by (simp add: example_torch_def)
  let ?env = "example_diag_env\<lparr>de_import_ext := Inl (BaseExn ''SystemExit'' ''5'')\<rparr>"
  have a: "Import ''flash_attn_2_cuda'' \<in> set (fst (diagnose_main ?env))"
    by (simp add: example_system_exit_run)
  have b: "de_import_ext ?env = Inl (BaseExn ''SystemExit'' ''5'')" by simp
  from ext_import_failure_diagnosed [OF a b]
  have 2: "snd (diagnose_main ?env) = Inl (BaseExn ''SystemExit'' ''5'')" by simp
  from 1 2 example_reaches_ext e show ?thesis by simp
qed

text \<open>
  C5 (as the specification words it) fails: when the import of \<open>flash_attn_2_cuda\<close> is
  attempted and raises \<open>SystemExit\<close>, \<open>main\<close> does not return 3; it ends with that exception.
\<close>

theorem ext_import_system_exit_not_3:
  "Import ''flash_attn_2_cuda''
     \<in> set (fst (diagnose_main (example_diag_env\<lparr>de_import_ext := Inl (BaseExn ''SystemExit'' ''5'')\<rparr>)))
   \<and> de_import_ext (example_diag_env\<lparr>de_import_ext := Inl (BaseExn ''SystemExit'' ''5'')\<rparr>)
       = Inl (BaseExn ''SystemExit'' ''5'')
   \<and> snd (diagnose_main (example_diag_env\<lparr>de_import_ext := Inl (BaseExn ''SystemExit'' ''5'')\<rparr>))
       = Inl (BaseExn ''SystemExit'' ''5'')
   \<and> snd (diagnose_main (example_diag_env\<lparr>de_import_ext := Inl (BaseExn ''SystemExit'' ''5'')\<rparr>))
       \<noteq> Inr 3"
proof -
  let ?env = "example_diag_env\<lparr>de_import_ext := Inl (BaseExn ''SystemExit'' ''5'')\<rparr>"
  have a: "Import ''flash_attn_2_cuda'' \<in> set (fst (diagnose_main ?env))"
    by (simp add: example_system_exit_run)
  have r: "snd (print_runtime ?env) = Inr ()"
    by (simp add: print_runtime_def example_diag_env_def cmd_output_def py_strip_def
          is_space_def is_linebreak_def nvcc_cmd_def smi_cmd_def)
  have i: "snd (diagnose_imports ?env) = Inl (BaseExn ''SystemExit'' ''5'')"
    by (simp add: diagnose_imports_def example_diag_env_def)
  from diagnose_main_returns [OF r] i have "snd (diagnose_main ?env) = Inl (BaseExn ''SystemExit'' ''5'')"
    by simp
  with a show ?thesis by simp
qed

text \<open>
  C3 (every outcome of the probe commands and of the imports ends in one of the exit codes 0
  to 3) does not hold of the code. When \<open>nvcc --version\<close> ends with status 0 and prints
  nothing, \<open>_cmd_output\<close> returns the empty string, its list of lines is empty, and \<open>[-1]\<close>
  raises \<open>IndexError\<close>: the inspector ends with an exception that nothing handles, after
  five events and before any import, although torch would import.
\<close>

theorem blank_probe_raises_index_error:
  "de_check_output blank_nvcc_env nvcc_cmd = Inr []
   \<and> de_import_torch blank_nvcc_env = Inr example_torch
   \<and> diagnose_main blank_nvcc_env
     = ([Print ''python: 3.10.12 (main)'', Print ''executable: /usr/bin/python'',
         Print ''platform: linux'', Print ''CUDA_HOME: <unset>'', Run nvcc_cmd],
        Inl IndexError)"
  by (simp add: diagnose_main_def print_runtime_def blank_nvcc_env_def example_diag_env_def
        cmd_output_def py_strip_def replace_newlines_def)

end
